theory Spec2Isabelle
  imports Complex_Main "HOL-Library.Sublist"
begin

unbundle bit_operations_syntax

section \<open>JavaScript numbers\<close>

text \<open>
  TerrainMesh.js computes with JavaScript numbers. They are modelled as the reals
  extended by the three special values of IEEE arithmetic. A finite number is an exact
  real: rounding and the sign of zero are not modelled, every other rule of the
  arithmetic on special values (absorbing NaN, \<open>Infinity - Infinity\<close>,
  \<open>0 * Infinity\<close>, comparisons with NaN being false) is the language's.
\<close>

datatype number = Fin real | PInf | NInf | NaN

text \<open>What an array read returns: a number, or \<open>undefined\<close> outside the array.\<close>

datatype jsval = Num number | Undefined

datatype error = TypeError | RangeError

fun signOf :: "number \<Rightarrow> real" where
  "signOf (Fin a) = sgn a"
| "signOf PInf = 1"
| "signOf NInf = - 1"
| "signOf NaN = 0"

definition infOfSign :: "real \<Rightarrow> number" where
  "infOfSign s = (if 0 < s then PInf else if s < 0 then NInf else NaN)"

instantiation number :: "{plus, minus, uminus, times, inverse, ord}"
begin

fun plus_number :: "number \<Rightarrow> number \<Rightarrow> number" where
  "Fin a + Fin b = Fin (a + b)"
| "NaN + _ = NaN"
| "_ + NaN = NaN"
| "PInf + NInf = NaN"
| "NInf + PInf = NaN"
| "PInf + _ = PInf"
| "NInf + _ = NInf"
| "_ + PInf = PInf"
| "_ + NInf = NInf"

fun uminus_number :: "number \<Rightarrow> number" where
  "- Fin a = Fin (- a)"
| "- PInf = NInf"
| "- NInf = PInf"
| "- NaN = NaN"

definition minus_number :: "number \<Rightarrow> number \<Rightarrow> number" where
  "a - b = a + (- (b::number))"

fun times_number :: "number \<Rightarrow> number \<Rightarrow> number" where
  "Fin a * Fin b = Fin (a * b)"
| "NaN * _ = NaN"
| "_ * NaN = NaN"
| "x * y = infOfSign (signOf x * signOf y)"

text \<open>Division (written \<open>/\<close> from here on); a zero divisor is taken as positive.\<close>

fun divide_number :: "number \<Rightarrow> number \<Rightarrow> number" where
  "Fin a div Fin b = (if b = 0 then infOfSign (sgn a) else Fin (a / b))"
| "NaN div _ = NaN"
| "_ div NaN = NaN"
| "Fin a div _ = Fin 0"
| "x div Fin b = infOfSign (signOf x * (if b < 0 then - 1 else 1))"
| "_ div _ = NaN"

definition inverse_number :: "number \<Rightarrow> number" where
  "inverse_number x = Fin 1 div x"

fun less_number :: "number \<Rightarrow> number \<Rightarrow> bool" where
  "Fin a < Fin b \<longleftrightarrow> a < b"
| "NaN < _ \<longleftrightarrow> False"
| "_ < NaN \<longleftrightarrow> False"
| "_ < NInf \<longleftrightarrow> False"
| "PInf < _ \<longleftrightarrow> False"
| "_ < PInf \<longleftrightarrow> True"
| "NInf < _ \<longleftrightarrow> True"

fun less_eq_number :: "number \<Rightarrow> number \<Rightarrow> bool" where
  "Fin a \<le> Fin b \<longleftrightarrow> a \<le> b"
| "NaN \<le> _ \<longleftrightarrow> False"
| "_ \<le> NaN \<longleftrightarrow> False"
| "NInf \<le> _ \<longleftrightarrow> True"
| "_ \<le> PInf \<longleftrightarrow> True"
| "_ \<le> NInf \<longleftrightarrow> False"
| "PInf \<le> _ \<longleftrightarrow> False"

instance ..

end

text \<open>\<open>a === b\<close> on numbers: NaN equals nothing, itself included.\<close>

definition strictEq :: "number \<Rightarrow> number \<Rightarrow> bool" where
  "strictEq a b \<longleftrightarrow> a = b \<and> a \<noteq> NaN"

fun Number_isFinite :: "jsval \<Rightarrow> bool" where
  "Number_isFinite (Num (Fin a)) = True"
| "Number_isFinite _ = False"

fun Math_floor :: "number \<Rightarrow> number" where
  "Math_floor (Fin a) = Fin (of_int \<lfloor>a\<rfloor>)"
| "Math_floor x = x"

fun Math_ceil :: "number \<Rightarrow> number" where
  "Math_ceil (Fin a) = Fin (of_int \<lceil>a\<rceil>)"
| "Math_ceil x = x"

text \<open>\<open>Math.round\<close> rounds a tie upwards.\<close>

fun Math_round :: "number \<Rightarrow> number" where
  "Math_round (Fin a) = Fin (of_int \<lfloor>a + 1 / 2\<rfloor>)"
| "Math_round x = x"

definition Math_min :: "number \<Rightarrow> number \<Rightarrow> number" where
  "Math_min a b = (if a = NaN \<or> b = NaN then NaN else if a \<le> b then a else b)"

definition Math_max :: "number \<Rightarrow> number \<Rightarrow> number" where
  "Math_max a b = (if a = NaN \<or> b = NaN then NaN else if a \<le> b then b else a)"

fun Math_sqrt :: "number \<Rightarrow> number" where
  "Math_sqrt (Fin a) = (if a < 0 then NaN else Fin (sqrt a))"
| "Math_sqrt PInf = PInf"
| "Math_sqrt x = NaN"

text \<open>
  \<open>d[i]\<close> on a typed array: the element when \<open>i\<close> is an integer inside the
  array, \<open>undefined\<close> otherwise.
\<close>

definition arrayGet :: "number list \<Rightarrow> number \<Rightarrow> jsval" where
  "arrayGet d i =
     (case i of
        Fin r \<Rightarrow>
          if r = of_int \<lfloor>r\<rfloor> \<and> 0 \<le> r \<and> r < real (length d)
          then Num (d ! nat \<lfloor>r\<rfloor>) else Undefined
      | _ \<Rightarrow> Undefined)"

section \<open>The terrain mesh\<close>

text \<open>
  The part of a \<open>THREE.BufferGeometry\<close> that the mesh code touches: the UV attribute
  (one pair per vertex), the index buffer (a \<open>Uint32Array\<close>) and the colour attribute
  (three channels per vertex). \<open>None\<close> is an attribute that is not set.
\<close>

record Geometry =
  uv :: "(number \<times> number) list option"
  index :: "nat list option"
  color :: "number list option"

text \<open>
  The fields of a \<open>TerrainMesh\<close> that the elevation sampler, the colouring, the
  triangle filter, the height query and the contour generator read or write. The raster
  and grid dimensions are array dimensions, natural numbers; \<open>None\<close> is \<open>null\<close>.
\<close>

record TerrainMesh =
  geometry :: "Geometry option"
  elevationData :: "number list option"
  elevationWidth :: nat
  elevationHeight :: nat
  noDataValue :: "number option"
  referenceElevation :: number
  depthRange :: "number \<times> number"
  zExaggeration :: number
  realWorldScale :: number
  modelWidth :: number
  modelHeight :: number
  gridWidth :: nat
  gridHeight :: nat
  originalIndices :: "nat list option"

abbreviation ofNat :: "nat \<Rightarrow> number" where
  "ofNat n \<equiv> Fin (real n)"

subsection \<open>Elevation sampling\<close>

definition isNoData :: "TerrainMesh \<Rightarrow> jsval \<Rightarrow> bool" where
  "isNoData tm val =
     (if \<not> Number_isFinite val then True
      else case val of
        Undefined \<Rightarrow> True
      | Num x \<Rightarrow>
          if Fin 100000 \<le> x then True
          else if noDataValue tm \<noteq> None \<and> strictEq x (the (noDataValue tm)) then True
          else False)"

text \<open>
  Reading \<open>this.elevationData[index]\<close> while the array is \<open>null\<close> throws. A value
  that is not NoData is a number, so the function returns a number.
\<close>

definition getElevationAt :: "TerrainMesh \<Rightarrow> number \<Rightarrow> number \<Rightarrow> error + number" where
  "getElevationAt tm x y =
     (case elevationData tm of
        None \<Rightarrow> Inl TypeError
      | Some d \<Rightarrow>
          let index = y * ofNat (elevationWidth tm) + x;
              val = arrayGet d index
          in if isNoData tm val then Inr NaN
             else Inr (case val of Num n \<Rightarrow> n | Undefined \<Rightarrow> NaN))"

text \<open>Sequencing of calls that may throw: the first exception is the result.\<close>

definition andThen :: "error + 'a \<Rightarrow> ('a \<Rightarrow> error + 'b) \<Rightarrow> error + 'b" where
  "andThen m f = (case m of Inl e \<Rightarrow> Inl e | Inr a \<Rightarrow> f a)"

definition sampleElevation :: "TerrainMesh \<Rightarrow> number \<Rightarrow> number \<Rightarrow> error + number" where
  "sampleElevation tm u v =
     (if elevationData tm = None then Inr (Fin 0)
      else
        let x = u * (ofNat (elevationWidth tm) - Fin 1);
            y = v * (ofNat (elevationHeight tm) - Fin 1);
            x0 = Math_floor x;
            y0 = Math_floor y;
            x1 = Math_min (x0 + Fin 1) (ofNat (elevationWidth tm) - Fin 1);
            y1 = Math_min (y0 + Fin 1) (ofNat (elevationHeight tm) - Fin 1);
            fx = x - x0;
            fy = y - y0
        in andThen (getElevationAt tm x0 y0) (\<lambda>v00.
           andThen (getElevationAt tm x1 y0) (\<lambda>v10.
           andThen (getElevationAt tm x0 y1) (\<lambda>v01.
           andThen (getElevationAt tm x1 y1) (\<lambda>v11.
             if \<not> Number_isFinite (Num v00) \<or> \<not> Number_isFinite (Num v10) \<or>
                \<not> Number_isFinite (Num v01) \<or> \<not> Number_isFinite (Num v11)
             then Inr NaN
             else
               let vA = v00 * (Fin 1 - fx) + v10 * fx;
                   vB = v01 * (Fin 1 - fx) + v11 * fx
               in Inr (vA * (Fin 1 - fy) + vB * fy))))))"

text \<open>\<open>d[...]\<close> with \<open>d\<close> being \<open>null\<close> throws.\<close>

definition hasNearbyNoData :: "TerrainMesh \<Rightarrow> number \<Rightarrow> number \<Rightarrow> error + bool" where
  "hasNearbyNoData tm u v =
     (let x = u * (ofNat (elevationWidth tm) - Fin 1);
          y = v * (ofNat (elevationHeight tm) - Fin 1);
          x0 = Math_floor x;
          y0 = Math_floor y;
          x1 = Math_min (x0 + Fin 1) (ofNat (elevationWidth tm) - Fin 1);
          y1 = Math_min (y0 + Fin 1) (ofNat (elevationHeight tm) - Fin 1);
          w = ofNat (elevationWidth tm)
      in case elevationData tm of
           None \<Rightarrow> Inl TypeError
         | Some d \<Rightarrow>
             Inr (isNoData tm (arrayGet d (y0 * w + x0))
                \<or> isNoData tm (arrayGet d (y0 * w + x1))
                \<or> isNoData tm (arrayGet d (y1 * w + x0))
                \<or> isNoData tm (arrayGet d (y1 * w + x1))))"

subsection \<open>Height query\<close>

definition getHeightScale :: "TerrainMesh \<Rightarrow> number" where
  "getHeightScale tm =
     (let scale = zExaggeration tm / realWorldScale tm
      in if Number_isFinite (Num scale) \<and> Fin 0 < scale then scale else Fin (1 / 1000))"


subsection \<open>Vertex colours\<close>

text \<open>
  \<open>TURBO_COLORMAP\<close> is imported from \<open>utils.js\<close>, which is not among the sources:
  the functions take the table as their first argument. An entry is an RGB triple.
  \<open>table[i]\<close> is \<open>undefined\<close> unless \<open>i\<close> is an integer inside the table, and
  reading a channel of \<open>undefined\<close> throws.
\<close>

type_synonym rgb = "number \<times> number \<times> number"

definition tableGet :: "'a list \<Rightarrow> number \<Rightarrow> 'a option" where
  "tableGet t i =
     (case i of
        Fin r \<Rightarrow>
          if r = of_int \<lfloor>r\<rfloor> \<and> 0 \<le> r \<and> r < real (length t)
          then Some (t ! nat \<lfloor>r\<rfloor>) else None
      | _ \<Rightarrow> None)"

definition getColorForDepth :: "rgb list \<Rightarrow> number \<Rightarrow> number \<Rightarrow> number \<Rightarrow> error + rgb" where
  "getColorForDepth TURBO_COLORMAP depth minDepth maxDepth =
     (let normalized = (depth - minDepth) / (maxDepth - minDepth);
          clamped = Math_max (Fin 0) (Math_min (Fin 1) normalized);
          inverted = Fin 1 - clamped;
          index = inverted * (ofNat (length TURBO_COLORMAP) - Fin 1);
          lower = Math_floor index;
          upper = Math_ceil index;
          frac = index - lower
      in case (tableGet TURBO_COLORMAP lower, tableGet TURBO_COLORMAP upper) of
           (Some (cL0, cL1, cL2), Some (cU0, cU1, cU2)) \<Rightarrow>
             Inr (cL0 + (cU0 - cL0) * frac,
                  cL1 + (cU1 - cL1) * frac,
                  cL2 + (cU2 - cL2) * frac)
         | _ \<Rightarrow> Inl TypeError)"

text \<open>
  The body that \<open>_computeVertexColorsAsync\<close> runs for one vertex: the three colour
  channels written for the vertex with the UV pair \<open>(u, v)\<close>.
\<close>

definition vertexColor :: "rgb list \<Rightarrow> TerrainMesh \<Rightarrow> number \<times> number \<Rightarrow> error + rgb" where
  "vertexColor TURBO_COLORMAP tm p =
     (let u = fst p; v = snd p
      in andThen (sampleElevation tm u (Fin 1 - v)) (\<lambda>elevation.
           if \<not> Number_isFinite (Num elevation) then Inr (Fin (1 / 2), Fin (1 / 2), Fin (1 / 2))
           else if referenceElevation tm \<le> elevation then Inr (Fin (1 / 2), Fin (1 / 2), Fin (1 / 2))
           else
             let depth = referenceElevation tm - elevation
             in getColorForDepth TURBO_COLORMAP depth (fst (depthRange tm)) (snd (depthRange tm))))"

text \<open>A loop whose body may throw: the results in order, or the first exception.\<close>

fun mapE :: "('a \<Rightarrow> error + 'b) \<Rightarrow> 'a list \<Rightarrow> error + 'b list" where
  "mapE f [] = Inr []"
| "mapE f (x # xs) = andThen (f x) (\<lambda>y. andThen (mapE f xs) (\<lambda>ys. Inr (y # ys)))"

text \<open>
  Modelled from the spec: \<open>processInChunks(total, chunkSize, fn, onProgress)\<close> of
  \<open>utils.js\<close> is not among the sources. The overview document describes it as
  processing the items in chunks and yielding to the event loop between chunks. It is
  taken to call \<open>fn(i)\<close> for \<open>i = 0, 1, ...\<close> while \<open>i < total\<close>, in order, and to
  end with the first exception of \<open>fn\<close>. The callback works on the variables of its
  caller, the state \<open>'s\<close>. The chunk size, the yields and the progress callbacks are
  left out.
\<close>

fun chunkItems :: "(nat \<Rightarrow> 's \<Rightarrow> error + 's) \<Rightarrow> nat list \<Rightarrow> 's \<Rightarrow> error + 's" where
  "chunkItems fn [] s = Inr s"
| "chunkItems fn (i # items) s = andThen (fn i s) (chunkItems fn items)"

definition processInChunks :: "real \<Rightarrow> (nat \<Rightarrow> 's \<Rightarrow> error + 's) \<Rightarrow> 's \<Rightarrow> error + 's" where
  "processInChunks total' fn s = chunkItems fn [0 ..< nat \<lceil>total'\<rceil>] s"

text \<open>
  The callback of \<open>_computeVertexColorsAsync\<close>: it writes the three channels of
  vertex \<open>i\<close> into \<open>colors\<close> (the counters for the console output are left out).
\<close>

definition colorVertex ::
  "rgb list \<Rightarrow> TerrainMesh \<Rightarrow> (number \<times> number) list \<Rightarrow> nat \<Rightarrow> number list \<Rightarrow> error + number list" where
  "colorVertex TURBO_COLORMAP tm uvs i colors =
     andThen (vertexColor TURBO_COLORMAP tm (uvs ! i)) (\<lambda>c.
       let idx = i * 3
       in Inr (colors[idx := fst c, idx + 1 := fst (snd c), idx + 2 := snd (snd c)]))"

text \<open>
  \<open>_computeVertexColorsAsync\<close> returns nothing; its effect is the new colour attribute
  of the geometry.
\<close>

definition computeVertexColorsAsync :: "rgb list \<Rightarrow> TerrainMesh \<Rightarrow> error + TerrainMesh" where
  "computeVertexColorsAsync TURBO_COLORMAP tm =
     (case geometry tm of
        None \<Rightarrow> Inr tm
      | Some g \<Rightarrow>
          if elevationData tm = None then Inr tm
          else case uv g of
            None \<Rightarrow> Inr tm
          | Some uvs \<Rightarrow>
              let vertexCount = length uvs;
                  colors = replicate (vertexCount * 3) (Fin 0)
              in andThen
                   (processInChunks (real vertexCount) (colorVertex TURBO_COLORMAP tm uvs) colors)
                   (\<lambda>colors'. Inr (tm\<lparr>geometry := Some (g\<lparr>color := Some colors'\<rparr>)\<rparr>)))"

subsection \<open>Triangle filtering\<close>

text \<open>
  The first loop of \<open>_filterAboveWaterTrianglesAsync\<close> for one vertex: the pair of its
  entries in \<open>isNoData\<close> and \<open>isBelowRef\<close>.
\<close>

definition classifyVertex :: "TerrainMesh \<Rightarrow> number \<times> number \<Rightarrow> error + bool \<times> bool" where
  "classifyVertex tm p =
     (let u = fst p; v = Fin 1 - snd p
      in andThen (hasNearbyNoData tm u v) (\<lambda>nearby.
           if nearby then Inr (True, False)
           else andThen (sampleElevation tm u v) (\<lambda>elevation.
             if \<not> Number_isFinite (Num elevation) then Inr (True, False)
             else if elevation < referenceElevation tm then Inr (False, True)
             else Inr (False, False))))"

text \<open>
  \<open>indices[k]\<close> is \<open>undefined\<close> past the end of the buffer, a flag array read at
  \<open>undefined\<close> or past its end is falsy, and \<open>new Uint32Array\<close> stores
  \<open>undefined\<close> as 0.
\<close>

definition indexAt :: "nat list \<Rightarrow> nat \<Rightarrow> nat option" where
  "indexAt indices k = (if k < length indices then Some (indices ! k) else None)"

definition flagAt :: "bool list \<Rightarrow> nat option \<Rightarrow> bool" where
  "flagAt flags i = (case i of None \<Rightarrow> False | Some j \<Rightarrow> j < length flags \<and> flags ! j)"

definition toUint32 :: "nat option \<Rightarrow> nat" where
  "toUint32 i = (case i of None \<Rightarrow> 0 | Some j \<Rightarrow> j)"

text \<open>
  The body of the triangle loop: the state is \<open>newIndices\<close> with \<open>filteredCount\<close>.
\<close>

definition filterTriangle ::
  "nat list \<Rightarrow> bool list \<Rightarrow> bool list \<Rightarrow> nat option list \<times> nat \<Rightarrow> nat \<Rightarrow> nat option list \<times> nat" where
  "filterTriangle indices isNoDataFlags isBelowRef st t =
     (let newIndices = fst st; filteredCount = snd st;
          i0 = indexAt indices (t * 3);
          i1 = indexAt indices (t * 3 + 1);
          i2 = indexAt indices (t * 3 + 2)
      in if flagAt isNoDataFlags i0 \<or> flagAt isNoDataFlags i1 \<or> flagAt isNoDataFlags i2
         then (newIndices, filteredCount + 1)
         else if flagAt isBelowRef i0 \<or> flagAt isBelowRef i1 \<or> flagAt isBelowRef i2
         then (newIndices @ [i0, i1, i2], filteredCount)
         else (newIndices, filteredCount + 1))"

text \<open>
  The effect of \<open>_filterAboveWaterTrianglesAsync\<close> is the new index buffer of the
  geometry, and \<open>originalIndices\<close> when it was not set before. The first loop fills
  the flag arrays vertex by vertex.
\<close>

definition filterAboveWaterTrianglesAsync :: "TerrainMesh \<Rightarrow> error + TerrainMesh" where
  "filterAboveWaterTrianglesAsync tm =
     (case geometry tm of
        None \<Rightarrow> Inr tm
      | Some g \<Rightarrow>
          if elevationData tm = None then Inr tm
          else case (uv g, index g) of
            (Some uvs, Some idx) \<Rightarrow>
              let indices = (case originalIndices tm of None \<Rightarrow> idx | Some orig \<Rightarrow> orig);
                  triangleCount = real (length indices) / 3
              in andThen (mapE (classifyVertex tm) uvs) (\<lambda>flags.
                   let isNoDataFlags = map fst flags;
                       isBelowRef = map snd flags
                   in andThen
                        (processInChunks triangleCount
                           (\<lambda>t st. Inr (filterTriangle indices isNoDataFlags isBelowRef st t))
                           ([], 0))
                        (\<lambda>st. Inr (tm\<lparr>originalIndices := Some indices,
                                      geometry := Some (g\<lparr>index := Some (map toUint32 (fst st))\<rparr>)\<rparr>)))
          | _ \<Rightarrow> Inr tm)"

section \<open>Contour generation\<close>

subsection \<open>Thresholds\<close>

text \<open>
  The threshold loop at the head of \<open>generateContours\<close>:
  \<^verbatim>\<open>for (let depth = interval; depth <= maxContourDepth; depth += interval)\<close>.
  It does not end when \<open>interval\<close> is not positive and the first test succeeds; the
  result \<open>None\<close> stands for a loop that never ends. The parameter
  \<open>referenceElevation\<close> of \<open>generateContours\<close> is written \<open>refElevation\<close>, apart from the
  field of the same name.
\<close>

partial_function (option) thresholdLoop ::
  "number \<Rightarrow> number \<Rightarrow> number \<Rightarrow> number \<Rightarrow> number \<Rightarrow> number list \<Rightarrow> number list option" where
  "thresholdLoop refElevation minElevation interval maxContourDepth depth thresholds =
     (if depth \<le> maxContourDepth
      then thresholdLoop refElevation minElevation interval maxContourDepth (depth + interval)
             (if minElevation \<le> refElevation - depth
              then thresholds @ [refElevation - depth] else thresholds)
      else Some thresholds)"

definition contourThresholds :: "number \<Rightarrow> number \<Rightarrow> number \<Rightarrow> number list option" where
  "contourThresholds refElevation minElevation interval =
     (let maxContourDepth = Math_round (refElevation - minElevation)
      in thresholdLoop refElevation minElevation interval maxContourDepth interval [])"

subsection \<open>Sampling grid, model coordinates and vertex normals\<close>

text \<open>
  \<open>grid\<close>, \<open>modelX\<close>, \<open>modelZ\<close> and \<open>vertexNormals\<close> are \<open>Float32Array\<close>s in the
  source; the rounding to single precision on storing is not modelled. All reads of
  them are inside the arrays. \<open>vertexNormals\<close> is kept as one triple per grid vertex.
\<close>

definition contourGrid :: "TerrainMesh \<Rightarrow> error + number list" where
  "contourGrid tm =
     (let gw = gridWidth tm; gh = gridHeight tm
      in andThen
           (mapE (\<lambda>gy.
              let v = ofNat gy / (ofNat gh - Fin 1)
              in mapE (\<lambda>gx.
                   let u = ofNat gx / (ofNat gw - Fin 1)
                   in sampleElevation tm u v) [0 ..< gw]) [0 ..< gh])
           (\<lambda>rows. Inr (concat rows)))"

definition contourModelX :: "TerrainMesh \<Rightarrow> number list" where
  "contourModelX tm =
     (let gw = gridWidth tm; halfW = modelWidth tm / Fin 2
      in map (\<lambda>gx. (ofNat gx / (ofNat gw - Fin 1)) * modelWidth tm - halfW) [0 ..< gw])"

definition contourModelZ :: "TerrainMesh \<Rightarrow> number list" where
  "contourModelZ tm =
     (let gh = gridHeight tm; halfH = modelHeight tm / Fin 2
      in map (\<lambda>gy. (ofNat gy / (ofNat gh - Fin 1)) * modelHeight tm - halfH) [0 ..< gh])"

definition vertexNormal ::
  "number list \<Rightarrow> nat \<Rightarrow> nat \<Rightarrow> number \<Rightarrow> number \<Rightarrow> number \<Rightarrow> nat \<Rightarrow> nat
     \<Rightarrow> number \<times> number \<times> number" where
  "vertexNormal grid gw gh cellW cellH heightScale gx gy =
     (let c = grid ! (gy * gw + gx)
      in if c = NaN then (Fin 0, Fin 1, Fin 0)
         else
           let left = (if 0 < gx then grid ! (gy * gw + gx - 1) else c);
               right = (if gx < gw - 1 then grid ! (gy * gw + gx + 1) else c);
               up = (if 0 < gy then grid ! ((gy - 1) * gw + gx) else c);
               down = (if gy < gh - 1 then grid ! ((gy + 1) * gw + gx) else c);
               l = (if left \<noteq> NaN then left else c);
               r = (if right \<noteq> NaN then right else c);
               u = (if up \<noteq> NaN then up else c);
               d = (if down \<noteq> NaN then down else c);
               dx = (if 0 < gx \<and> gx < gw - 1 then Fin 2 else Fin 1);
               dz = (if 0 < gy \<and> gy < gh - 1 then Fin 2 else Fin 1);
               gradX = (r - l) / (dx * cellW) * heightScale;
               gradZ = (d - u) / (dz * cellH) * heightScale;
               nLen = Math_sqrt (gradX * gradX + Fin 1 + gradZ * gradZ)
           in (- gradX / nLen, Fin 1 / nLen, - gradZ / nLen))"

definition contourNormals :: "TerrainMesh \<Rightarrow> number list \<Rightarrow> number \<Rightarrow> (number \<times> number \<times> number) list" where
  "contourNormals tm grid heightScale =
     (let gw = gridWidth tm; gh = gridHeight tm;
          cellW = modelWidth tm / (ofNat gw - Fin 1);
          cellH = modelHeight tm / (ofNat gh - Fin 1)
      in concat (map (\<lambda>gy. map (\<lambda>gx. vertexNormal grid gw gh cellW cellH heightScale gx gy)
                                [0 ..< gw]) [0 ..< gh]))"

subsection \<open>Marching squares\<close>

text \<open>
  The edge table: edges are 0 = top, 1 = right, 2 = bottom, 3 = left; the entries of the
  saddle cases 5 and 10 are \<open>null\<close>.
\<close>

definition MS_EDGE_TABLE :: "(nat \<times> nat) list option list" where
  "MS_EDGE_TABLE =
     [Some [], Some [(3, 2)], Some [(2, 1)], Some [(3, 1)],
      Some [(0, 1)], None, Some [(0, 2)], Some [(3, 0)],
      Some [(0, 3)], Some [(0, 2)], None, Some [(0, 1)],
      Some [(3, 1)], Some [(2, 1)], Some [(3, 2)], Some []]"

definition caseBitsOf :: "number \<Rightarrow> number \<Rightarrow> number \<Rightarrow> number \<Rightarrow> number \<Rightarrow> nat" where
  "caseBitsOf threshold tL tR bR bL =
     (if threshold \<le> tL then 8 else 0) OR (if threshold \<le> tR then 4 else 0)
       OR (if threshold \<le> bR then 2 else 0) OR (if threshold \<le> bL then 1 else 0)"

text \<open>
  The edge pairs that the cell loop of \<open>generateContours\<close> goes through for one cell:
  none when the cell is skipped (\<open>continue\<close>). Iterating over a \<open>null\<close> table entry
  would throw.
\<close>

definition cellEdges :: "number \<Rightarrow> number \<Rightarrow> number \<Rightarrow> number \<Rightarrow> number \<Rightarrow> error + (nat \<times> nat) list" where
  "cellEdges threshold tL tR bR bL =
     (if tL = NaN \<or> tR = NaN \<or> bR = NaN \<or> bL = NaN then Inr []
      else
        let caseBits = caseBitsOf threshold tL tR bR bL
        in if caseBits = 0 \<or> caseBits = 15 then Inr []
           else if caseBits = 5 then
             (let center = (tL + tR + bR + bL) * Fin (1 / 4)
              in Inr (if threshold \<le> center then [(3, 0), (2, 1)] else [(0, 1), (3, 2)]))
           else if caseBits = 10 then
             (let center = (tL + tR + bR + bL) * Fin (1 / 4)
              in Inr (if threshold \<le> center then [(0, 1), (3, 2)] else [(3, 0), (2, 1)]))
           else (case MS_EDGE_TABLE ! caseBits of
                   None \<Rightarrow> Inl TypeError
                 | Some edges \<Rightarrow> Inr edges))"

text \<open>
  \<open>_interpolateEdge\<close> returns \<open>[x, z, t]\<close>; for an edge other than 0 to 3 it returns
  \<open>undefined\<close>, and the caller's \<open>p0[2]\<close> throws.
\<close>

definition interpolateEdge ::
  "nat \<Rightarrow> number \<Rightarrow> number \<Rightarrow> number \<Rightarrow> number \<Rightarrow> number \<Rightarrow> number \<Rightarrow> number \<Rightarrow> number \<Rightarrow> number
     \<Rightarrow> error + number \<times> number \<times> number" where
  "interpolateEdge edge threshold tL tR bR bL x0 x1 z0 z1 =
     (if edge = 0 then
        (let t = (threshold - tL) / (tR - tL) in Inr (x0 + t * (x1 - x0), z0, t))
      else if edge = 1 then
        (let t = (threshold - tR) / (bR - tR) in Inr (x1, z0 + t * (z1 - z0), t))
      else if edge = 2 then
        (let t = (threshold - bL) / (bR - bL) in Inr (x0 + t * (x1 - x0), z1, t))
      else if edge = 3 then
        (let t = (threshold - tL) / (bL - tL) in Inr (x0, z0 + t * (z1 - z0), t))
      else Inl TypeError)"

text \<open>
  The two corner normals between which the normal of a point on an edge is
  interpolated (\<open>ntl\<close>, \<open>ntr\<close>, \<open>nbr\<close>, \<open>nbl\<close> are the normals of the cell's corners).
\<close>

definition edgeNormals ::
  "nat \<Rightarrow> 'a \<Rightarrow> 'a \<Rightarrow> 'a \<Rightarrow> 'a \<Rightarrow> 'a \<times> 'a" where
  "edgeNormals e ntl ntr nbr nbl =
     (if e = 0 then (ntl, ntr)
      else if e = 1 then (ntr, nbr)
      else if e = 2 then (nbl, nbr)
      else (ntl, nbl))"

text \<open>The six numbers pushed to \<open>chunkData\<close> for one edge pair of a cell.\<close>

definition edgeSegment ::
  "number \<Rightarrow> number \<Rightarrow> number \<Rightarrow> number \<Rightarrow> number \<Rightarrow> number \<Rightarrow> number \<Rightarrow> number \<Rightarrow> number \<Rightarrow> number \<Rightarrow> number
     \<Rightarrow> (number \<times> number \<times> number) \<Rightarrow> (number \<times> number \<times> number)
     \<Rightarrow> (number \<times> number \<times> number) \<Rightarrow> (number \<times> number \<times> number)
     \<Rightarrow> nat \<times> nat \<Rightarrow> error + number list" where
  "edgeSegment threshold contourY heightOffset tL tR bR bL x0 x1 z0 z1 ntl ntr nbr nbl e =
     (let e0 = fst e; e1 = snd e
      in andThen (interpolateEdge e0 threshold tL tR bR bL x0 x1 z0 z1) (\<lambda>p0.
         andThen (interpolateEdge e1 threshold tL tR bR bL x0 x1 z0 z1) (\<lambda>p1.
           let t0 = snd (snd p0);
               t1 = snd (snd p1);
               n0i0 = fst (edgeNormals e0 ntl ntr nbr nbl);
               n0i1 = snd (edgeNormals e0 ntl ntr nbr nbl);
               n1i0 = fst (edgeNormals e1 ntl ntr nbr nbl);
               n1i1 = snd (edgeNormals e1 ntl ntr nbr nbl);
               nx0 = fst n0i0 + t0 * (fst n0i1 - fst n0i0);
               ny0 = fst (snd n0i0) + t0 * (fst (snd n0i1) - fst (snd n0i0));
               nz0 = snd (snd n0i0) + t0 * (snd (snd n0i1) - snd (snd n0i0));
               nx1 = fst n1i0 + t1 * (fst n1i1 - fst n1i0);
               ny1 = fst (snd n1i0) + t1 * (fst (snd n1i1) - fst (snd n1i0));
               nz1 = snd (snd n1i0) + t1 * (snd (snd n1i1) - snd (snd n1i0))
           in Inr [fst p0 + nx0 * heightOffset, contourY + ny0 * heightOffset,
                   fst (snd p0) + nz0 * heightOffset,
                   fst p1 + nx1 * heightOffset, contourY + ny1 * heightOffset,
                   fst (snd p1) + nz1 * heightOffset])))"

text \<open>The numbers one cell contributes to \<open>chunkData\<close>.\<close>

definition cellSegments ::
  "nat \<Rightarrow> number list \<Rightarrow> number list \<Rightarrow> number list \<Rightarrow> (number \<times> number \<times> number) list
     \<Rightarrow> number \<Rightarrow> number \<Rightarrow> number \<Rightarrow> nat \<Rightarrow> nat \<Rightarrow> error + number list" where
  "cellSegments gw grid modelX modelZ vertexNormals threshold contourY heightOffset gy gx =
     (let rowOffset = gy * gw;
          nextRowOffset = (gy + 1) * gw;
          tL = grid ! (rowOffset + gx);
          tR = grid ! (rowOffset + gx + 1);
          bR = grid ! (nextRowOffset + gx + 1);
          bL = grid ! (nextRowOffset + gx)
      in andThen (cellEdges threshold tL tR bR bL) (\<lambda>edges.
           let x0 = modelX ! gx;
               x1 = modelX ! (gx + 1);
               z0 = modelZ ! gy;
               z1 = modelZ ! (gy + 1);
               ntl = vertexNormals ! (gy * gw + gx);
               ntr = vertexNormals ! (gy * gw + gx + 1);
               nbr = vertexNormals ! ((gy + 1) * gw + gx + 1);
               nbl = vertexNormals ! ((gy + 1) * gw + gx)
           in andThen
                (mapE (edgeSegment threshold contourY heightOffset tL tR bR bL x0 x1 z0 z1
                         ntl ntr nbr nbl) edges)
                (\<lambda>segs. Inr (concat segs))))"

text \<open>\<open>chunkData\<close> of one threshold: the cells row by row.\<close>

definition marchThreshold ::
  "nat \<Rightarrow> nat \<Rightarrow> number list \<Rightarrow> number list \<Rightarrow> number list \<Rightarrow> (number \<times> number \<times> number) list
     \<Rightarrow> number \<Rightarrow> number \<Rightarrow> number \<Rightarrow> error + number list" where
  "marchThreshold gw gh grid modelX modelZ vertexNormals threshold contourY heightOffset =
     andThen
       (mapE (\<lambda>gy.
          andThen
            (mapE (cellSegments gw grid modelX modelZ vertexNormals threshold contourY heightOffset gy)
               [0 ..< gw - 1])
            (\<lambda>cells. Inr (concat cells))) [0 ..< gh - 1])
       (\<lambda>rows. Inr (concat rows))"

subsection \<open>Polyline simplification\<close>

text \<open>
  A point is the array \<open>[x, z]\<close>. The squared distance that the scanning loops of
  \<open>_simplifyPolyline2D\<close> compute for the point \<open>p\<close>: from the first point when the chord
  from \<open>first\<close> to \<open>last\<close> is shorter than \<open>1e-10\<close>, from the line through the
  chord otherwise.
\<close>

type_synonym point = "number \<times> number"

definition chordDistSq :: "point \<Rightarrow> point \<Rightarrow> point \<Rightarrow> number" where
  "chordDistSq firstPt lastPt p =
     (let dx = fst lastPt - fst firstPt;
          dz = snd lastPt - snd firstPt;
          lineLenSq = dx * dx + dz * dz;
          px = fst p - fst firstPt;
          pz = snd p - snd firstPt
      in if lineLenSq < Fin (1 / 10 ^ 20) then px * px + pz * pz
         else
           let invLen = Fin 1 / lineLenSq;
               t = (px * dx + pz * dz) * invLen;
               ex = px - t * dx;
               ez = pz - t * dz
           in ex * ex + ez * ez)"

text \<open>One step of the scan: the state is \<open>(maxDistSq, maxIdx)\<close>.\<close>

definition scanStep :: "point list \<Rightarrow> number \<times> nat \<Rightarrow> nat \<Rightarrow> number \<times> nat" where
  "scanStep points st i =
     (let dSq = chordDistSq (points ! 0) (points ! (length points - 1)) (points ! i)
      in if fst st < dSq then (dSq, i) else st)"

definition farthest :: "point list \<Rightarrow> number \<times> nat" where
  "farthest points = foldl (scanStep points) (Fin 0, 0) [1 ..< length points - 1]"

lemma square_not_negative: "\<not> (t * t < Fin 0)" for t :: number
  by (cases t) (simp_all add: infOfSign_def)

lemma scan_bounds:
  assumes "\<forall>i\<in>set is. 1 \<le> i \<and> i < n" "snd st < n" "snd st = 0 \<longrightarrow> fst st = Fin 0"
  shows "snd (foldl (scanStep points) st is) < n
       \<and> (snd (foldl (scanStep points) st is) = 0 \<longrightarrow> fst (foldl (scanStep points) st is) = Fin 0)"
  using assms
proof (induction "is" arbitrary: st)
  case Nil
  then show ?case by simp
next
  case (Cons i "is")
  have "snd (scanStep points st i) < n"
    and "snd (scanStep points st i) = 0 \<longrightarrow> fst (scanStep points st i) = Fin 0"
    using Cons.prems by (auto simp: scanStep_def Let_def)
  with Cons show ?case by simp
qed

lemma farthest_bounds:
  assumes "2 < length points"
  shows "snd (farthest points) < length points - 1"
    and "snd (farthest points) = 0 \<longrightarrow> fst (farthest points) = Fin 0"
  using scan_bounds[of "[1 ..< length points - 1]" "length points - 1" "(Fin 0, 0)" points] assms
  by (auto simp: farthest_def)

function simplifyPolyline2D :: "point list \<Rightarrow> number \<Rightarrow> point list" where
  "simplifyPolyline2D points tolerance =
     (if length points \<le> 2 then points
      else
        let tolSq = tolerance * tolerance;
            firstPt = points ! 0;
            lastPt = points ! (length points - 1);
            maxDistSq = fst (farthest points);
            maxIdx = snd (farthest points)
        in if tolSq < maxDistSq then
             (let left = simplifyPolyline2D (take (maxIdx + 1) points) tolerance;
                  right = simplifyPolyline2D (drop maxIdx points) tolerance
              in butlast left @ right)
           else [firstPt, lastPt])"
  by pat_completeness auto
termination
proof (relation "measure (\<lambda>(points, tolerance). length points)")
  show "wf (measure (\<lambda>(points, tolerance). length points))" by simp
next
  fix points :: "point list" and tolerance tolSq maxDistSq :: number and firstPt lastPt :: point and maxIdx :: nat
  assume "\<not> length points \<le> 2" and "maxIdx = snd (farthest points)"
  then show "((take (maxIdx + 1) points, tolerance), (points, tolerance))
               \<in> measure (\<lambda>(points, tolerance). length points)"
    using farthest_bounds(1)[of points] by simp
next
  fix points :: "point list" and tolerance tolSq maxDistSq :: number and firstPt lastPt :: point and maxIdx :: nat
    and left :: "point list"
  assume "\<not> length points \<le> 2" and "tolSq = tolerance * tolerance"
    and "maxDistSq = fst (farthest points)" and "maxIdx = snd (farthest points)"
    and "tolSq < maxDistSq"
  then have "maxIdx \<noteq> 0"
    using farthest_bounds(2)[of points] square_not_negative[of tolerance] by auto
  then show "((drop maxIdx points, tolerance), (points, tolerance))
               \<in> measure (\<lambda>(points, tolerance). length points)"
    using \<open>\<not> length points \<le> 2\<close> by simp
qed

declare simplifyPolyline2D.simps [simp del]

subsection \<open>Chaining\<close>

text \<open>
  \<open>_chainAndSimplifySegments\<close> gets \<open>chunkData\<close>, six numbers per segment:
  \<open>x, y, z\<close> of its start and of its end. The adjacency map is keyed by the string
  \<open>x + ',' + z\<close>, which identifies the pair of numbers; the list stored under a key holds
  \<open>\<lbrace>seg, end\<rbrace>\<close> for every segment end with these coordinates, in the order of
  insertion, and a key that is absent behaves as the empty list. The flag array
  \<open>used\<close> is the set of segments flagged so far.
\<close>

definition segStart :: "number list \<Rightarrow> nat \<Rightarrow> point" where
  "segStart data i = (data ! (i * 6), data ! (i * 6 + 2))"

definition segEnd :: "number list \<Rightarrow> nat \<Rightarrow> point" where
  "segEnd data i = (data ! (i * 6 + 3), data ! (i * 6 + 5))"

definition adjacency :: "number list \<Rightarrow> point \<Rightarrow> (nat \<times> nat) list" where
  "adjacency data k =
     concat (map (\<lambda>i. (if segStart data i = k then [(i, 0)] else [])
                      @ (if segEnd data i = k then [(i, 1)] else []))
               [0 ..< length data div 6])"

lemma adjacency_range: "n \<in> set (adjacency data k) \<Longrightarrow> fst n < length data div 6"
  by (auto simp: adjacency_def split: if_splits)

text \<open>
  The walking loop \<^verbatim>\<open>for (;;)\<close>, forwards or backwards: it ends with the flags and
  the points collected.
\<close>

function walkChain :: "number list \<Rightarrow> nat set \<Rightarrow> point \<Rightarrow> point list \<Rightarrow> nat set \<times> point list" where
  "walkChain data used curKey acc =
     (case find (\<lambda>n. fst n \<notin> used) (adjacency data curKey) of
        None \<Rightarrow> (used, acc)
      | Some n \<Rightarrow>
          let p = (if snd n = 0 then segEnd data (fst n) else segStart data (fst n))
          in walkChain data (insert (fst n) used) p (acc @ [p]))"
  by pat_completeness auto
termination
proof (relation "measure (\<lambda>(data, used, curKey, acc). card ({..< length data div 6} - used))")
  show "wf (measure (\<lambda>(data, used, curKey, acc). card ({..< length data div 6} - used)))" by simp
next
  fix data :: "number list" and used :: "nat set" and curKey p :: point and acc :: "point list"
    and n :: "nat \<times> nat"
  assume "find (\<lambda>n. fst n \<notin> used) (adjacency data curKey) = Some n"
  then have "fst n \<notin> used" "n \<in> set (adjacency data curKey)"
    by (auto simp: find_Some_iff)
  then have "fst n \<in> {..< length data div 6} - used"
    using adjacency_range by auto
  then have "card ({..< length data div 6} - used - {fst n}) < card ({..< length data div 6} - used)"
    by (intro card_Diff1_less) simp_all
  moreover have "{..< length data div 6} - insert (fst n) used = {..< length data div 6} - used - {fst n}"
    by auto
  ultimately show "((data, insert (fst n) used, p, acc @ [p]), (data, used, curKey, acc))
      \<in> measure (\<lambda>(data, used, curKey, acc). card ({..< length data div 6} - used))"
    by simp
qed

declare walkChain.simps [simp del]

text \<open>The body of the loop over the segments: the state is \<open>used\<close> with \<open>result\<close>.\<close>

definition chainStep ::
  "number list \<Rightarrow> number \<Rightarrow> number \<Rightarrow> nat set \<times> number list \<Rightarrow> nat \<Rightarrow> nat set \<times> number list" where
  "chainStep data contourY tolerance st i =
     (if i \<in> fst st then st
      else
        let a = segStart data i;
            b = segEnd data i;
            forwards = walkChain data (insert i (fst st)) b [];
            backwards = walkChain data (fst forwards) a [];
            poly = rev (snd backwards) @ [a, b] @ snd forwards;
            simplified = simplifyPolyline2D poly tolerance
        in (fst backwards,
            snd st @ concat (map (\<lambda>j. [fst (simplified ! j), contourY, snd (simplified ! j),
                                         fst (simplified ! (j + 1)), contourY, snd (simplified ! (j + 1))])
                               [0 ..< length simplified - 1])))"

definition chainAndSimplifySegments :: "number list \<Rightarrow> number \<Rightarrow> number \<Rightarrow> number list" where
  "chainAndSimplifySegments data contourY tolerance =
     (let segCount = length data div 6
      in if segCount = 0 then data
         else snd (foldl (chainStep data contourY tolerance) ({}, []) [0 ..< segCount]))"

subsection \<open>The threshold loop and \<open>generateContours\<close>\<close>

text \<open>
  The returned object; \<open>aborted = None\<close> is an object without that property, and
  \<open>segments\<close> is the content of the \<open>Float32Array\<close>.
\<close>

record contourResult =
  segments :: "number list"
  vertexCount :: number
  aborted :: "bool option"

text \<open>
  What one threshold adds to \<open>segmentChunks\<close>: nothing (\<open>None\<close>) when its
  \<open>chunkData\<close> stays empty.
\<close>

definition thresholdChunk ::
  "nat \<Rightarrow> nat \<Rightarrow> number list \<Rightarrow> number list \<Rightarrow> number list \<Rightarrow> (number \<times> number \<times> number) list
     \<Rightarrow> number \<Rightarrow> number \<Rightarrow> number \<Rightarrow> number \<Rightarrow> number \<Rightarrow> error + number list option" where
  "thresholdChunk gw gh grid modelX modelZ vertexNormals refElevation heightScale heightOffset
       simplifyTolerance threshold =
     (let contourY = (threshold - refElevation) * heightScale
      in andThen (marchThreshold gw gh grid modelX modelZ vertexNormals threshold contourY heightOffset)
           (\<lambda>chunkData.
              if 0 < length chunkData then
                (if Fin 0 < simplifyTolerance
                 then Inr (Some (chainAndSimplifySegments chunkData contourY simplifyTolerance))
                 else Inr (Some chunkData))
              else Inr None))"

text \<open>
  The loop over the thresholds, \<open>body\<close> computing the chunk of a threshold. Its state is
  \<open>segmentChunks\<close>, \<open>totalVertices\<close> and the values passed to \<open>onProgress\<close> so
  far (what a caller that supplies the callback observes); \<open>n\<close> is
  \<open>thresholds.length\<close> and \<open>ti\<close> the loop index. The yield to the event loop after each
  threshold and the console output are left out.
\<close>

fun contourLoop ::
  "(number \<Rightarrow> error + number list option) \<Rightarrow> number \<Rightarrow> nat \<Rightarrow> number list \<Rightarrow> nat
     \<Rightarrow> number list list \<Rightarrow> number \<Rightarrow> number list \<Rightarrow> error + contourResult \<times> number list" where
  "contourLoop body maxVertices n [] ti segmentChunks totalVertices progress =
     Inr (\<lparr>segments = concat segmentChunks, vertexCount = totalVertices, aborted = Some False\<rparr>,
          progress)"
| "contourLoop body maxVertices n (threshold # rest) ti segmentChunks totalVertices progress =
     andThen (body threshold) (\<lambda>chunk.
       let segmentChunks' = (case chunk of None \<Rightarrow> segmentChunks | Some c \<Rightarrow> segmentChunks @ [c]);
           totalVertices' = (case chunk of None \<Rightarrow> totalVertices
                             | Some c \<Rightarrow> totalVertices + ofNat (length c) / Fin 3);
           progress' = progress @ [ofNat (ti + 1) / ofNat n]
       in if Fin 0 < maxVertices \<and> maxVertices < totalVertices'
          then Inr (\<lparr>segments = [], vertexCount = totalVertices', aborted = Some True\<rparr>, progress')
          else contourLoop body maxVertices n rest (ti + 1) segmentChunks' totalVertices' progress')"

text \<open>
  \<open>generateContours\<close>: \<open>None\<close> when the threshold loop never ends; otherwise an
  exception, or the returned value (\<open>None\<close> for \<open>null\<close>) with the values passed to
  \<open>onProgress\<close>.
\<close>

definition generateContours ::
  "TerrainMesh \<Rightarrow> number \<Rightarrow> number \<Rightarrow> number \<Rightarrow> number \<Rightarrow> number \<Rightarrow> number
     \<Rightarrow> (error + contourResult option \<times> number list) option" where
  "generateContours tm refElevation minElevation interval heightOffset simplifyTolerance maxVertices =
     (if elevationData tm = None \<or> gridWidth tm = 0 \<or> gridHeight tm = 0 then Some (Inr (None, []))
      else
        let gw = gridWidth tm;
            gh = gridHeight tm;
            heightScale = getHeightScale tm
        in case contourThresholds refElevation minElevation interval of
             None \<Rightarrow> None
           | Some thresholds \<Rightarrow>
               if length thresholds = 0
               then Some (Inr (Some \<lparr>segments = [], vertexCount = Fin 0, aborted = None\<rparr>, []))
               else Some (
                 andThen (contourGrid tm) (\<lambda>grid.
                   let modelX = contourModelX tm;
                       modelZ = contourModelZ tm;
                       vertexNormals = contourNormals tm grid heightScale
                   in andThen
                        (contourLoop
                           (thresholdChunk gw gh grid modelX modelZ vertexNormals refElevation
                              heightScale heightOffset simplifyTolerance)
                           maxVertices (length thresholds) thresholds 0 [] (Fin 0) [])
                        (\<lambda>r. Inr (Some (fst r), snd r)))))"

section \<open>Examples and notions used to state the properties\<close>

subsection \<open>An example mesh\<close>

text \<open>
  A 2 by 2 raster with the elevations 0, 10 (north row) and 20, 30 (south row), no
  explicit NoData value, the constructor's defaults elsewhere, and the 2 by 2 vertex
  grid of one quad cut into two triangles (vertex \<open>i\<close> of the plane has the
  UV \<open>(column, 1 - row)\<close>).
\<close>

definition exampleMesh :: TerrainMesh where
  "exampleMesh =
     \<lparr> geometry = Some \<lparr> uv = Some [(Fin 0, Fin 1), (Fin 1, Fin 1), (Fin 0, Fin 0), (Fin 1, Fin 0)],
                          index = Some [0, 2, 1, 2, 3, 1],
                          color = None \<rparr>,
       elevationData = Some [Fin 0, Fin 10, Fin 20, Fin 30],
       elevationWidth = 2, elevationHeight = 2,
       noDataValue = None,
       referenceElevation = Fin 157,
       depthRange = (Fin 0, Fin 31),
       zExaggeration = Fin 1,
       realWorldScale = Fin 1,
       modelWidth = Fin 1, modelHeight = Fin 1,
       gridWidth = 2, gridHeight = 2,
       originalIndices = None \<rparr>"

text \<open>A mesh as the constructor leaves it, before any raster is loaded.\<close>

definition freshMesh :: TerrainMesh where
  "freshMesh =
     \<lparr> geometry = None,
       elevationData = None,
       elevationWidth = 0, elevationHeight = 0,
       noDataValue = None,
       referenceElevation = Fin 157,
       depthRange = (Fin 0, Fin 31),
       zExaggeration = Fin 4,
       realWorldScale = Fin 1,
       modelWidth = Fin 1, modelHeight = Fin 1,
       gridWidth = 0, gridHeight = 0,
       originalIndices = None \<rparr>"


subsection \<open>Notions used to state the properties\<close>


text \<open>A colour whose three channels lie between 0 and 1.\<close>

definition unitChannel :: "number \<Rightarrow> bool" where
  "unitChannel c \<longleftrightarrow> Fin 0 \<le> c \<and> c \<le> Fin 1"

definition unitRgb :: "rgb \<Rightarrow> bool" where
  "unitRgb c = (case c of (r, g, b) \<Rightarrow> unitChannel r \<and> unitChannel g \<and> unitChannel b)"

definition gray :: rgb where
  "gray = (Fin (1 / 2), Fin (1 / 2), Fin (1 / 2))"

text \<open>Linear interpolation between two table entries, channel by channel.\<close>

definition mixRgb :: "rgb \<Rightarrow> rgb \<Rightarrow> real \<Rightarrow> rgb" where
  "mixRgb lo hi f =
     (case (lo, hi) of
        ((l0, l1, l2), (h0, h1, h2)) \<Rightarrow>
          (l0 + (h0 - l0) * Fin f, l1 + (h1 - l1) * Fin f, l2 + (h2 - l2) * Fin f))"

text \<open>
  A two-colour ramp from black to white, stretched to the 256 entries of a colour
  table: entry \<open>i\<close> is the gray level \<open>i / 255\<close>.
\<close>

definition rampColormap :: "rgb list" where
  "rampColormap = map (\<lambda>i. (Fin (real i / 255), Fin (real i / 255), Fin (real i / 255))) [0 ..< 256]"

text \<open>
  The triangles of an index buffer, in buffer order, and the classification of a vertex
  by the triangle filter: NoData when a sample of its bilinear neighbourhood is NoData or
  its elevation sample is not finite, below the reference when the sample is strictly
  below \<open>referenceElevation\<close>. The filter samples at the V-flipped UV pair. A triangle is
  kept when none of its vertices is NoData and one is below the reference.
\<close>

definition trianglesOf :: "nat list \<Rightarrow> nat list list" where
  "trianglesOf indices =
     map (\<lambda>t. [indices ! (t * 3), indices ! (t * 3 + 1), indices ! (t * 3 + 2)])
       [0 ..< length indices div 3]"

definition vertexIsNoData :: "TerrainMesh \<Rightarrow> number \<times> number \<Rightarrow> bool" where
  "vertexIsNoData tm p \<longleftrightarrow>
     hasNearbyNoData tm (fst p) (Fin 1 - snd p) = Inr True
     \<or> (case sampleElevation tm (fst p) (Fin 1 - snd p) of
           Inr e \<Rightarrow> \<not> Number_isFinite (Num e)
         | Inl _ \<Rightarrow> False)"

definition vertexBelowReference :: "TerrainMesh \<Rightarrow> number \<times> number \<Rightarrow> bool" where
  "vertexBelowReference tm p \<longleftrightarrow>
     (case sampleElevation tm (fst p) (Fin 1 - snd p) of
        Inr e \<Rightarrow> e < referenceElevation tm
      | Inl _ \<Rightarrow> False)"

definition keptTriangle :: "TerrainMesh \<Rightarrow> (number \<times> number) list \<Rightarrow> nat list \<Rightarrow> bool" where
  "keptTriangle tm uvs tri \<longleftrightarrow>
     (\<forall>i\<in>set tri. \<not> vertexIsNoData tm (uvs ! i)) \<and> (\<exists>i\<in>set tri. vertexBelowReference tm (uvs ! i))"


text \<open>
  The running vertex total of \<open>generateContours\<close> after the chunks of the thresholds
  processed so far: a threshold with an empty chunk adds nothing, any other a third of
  the length of its chunk.
\<close>

definition addChunk :: "number \<Rightarrow> number list option \<Rightarrow> number" where
  "addChunk totalVertices chunk =
     (case chunk of None \<Rightarrow> totalVertices
      | Some c \<Rightarrow> totalVertices + ofNat (length c) / Fin 3)"

definition runningTotal :: "number list option list \<Rightarrow> number" where
  "runningTotal chunks = foldl addChunk (Fin 0) chunks"

text \<open>
  What a threshold adds to \<open>segmentChunks\<close> when no simplification is asked for: its
  \<open>chunkData\<close>, unless that is empty.
\<close>

definition chunkOfData :: "number list \<Rightarrow> number list option" where
  "chunkOfData chunkData = (if 0 < length chunkData then Some chunkData else None)"

section \<open>Properties\<close>

subsection \<open>Numbers and array reads\<close>



lemma notNoData_Fin: "\<not> isNoData tm val \<Longrightarrow> \<exists>r. val = Num (Fin r)"
  by (cases val rule: Number_isFinite.cases) (auto simp: isNoData_def)





subsection \<open>Bilinear sampling\<close>





subsection \<open>The NoData neighbourhood and the sampler agree\<close>

lemma arrayGet_defined: "arrayGet d i \<noteq> Undefined \<Longrightarrow> \<exists>r. i = Fin r"
  by (cases i) (simp_all add: arrayGet_def)

lemma infOfSign_not_Fin [simp]: "infOfSign s \<noteq> Fin r"
  by (simp add: infOfSign_def)

lemma index_Fin:
  assumes "y0 * Fin w + x0 = Fin r"
  shows "(\<exists>a. x0 = Fin a) \<and> (\<exists>b. y0 = Fin b)"
  using assms by (cases x0; cases y0) (simp_all add: infOfSign_def split: if_splits)

lemma Math_floor_Fin: "Math_floor x = Fin a \<Longrightarrow> \<exists>r. x = Fin r"
  by (cases x) simp_all

lemma bilinear_Fin:
  "\<exists>r. (Fin a * (Fin 1 - (Fin x - Fin x0)) + Fin b * (Fin x - Fin x0)) * (Fin 1 - (Fin y - Fin y0))
     + (Fin c * (Fin 1 - (Fin x - Fin x0)) + Fin e * (Fin x - Fin x0)) * (Fin y - Fin y0) = Fin r"
  by (simp add: minus_number_def)

text \<open>
  With the raster set, neither function throws, and the sample is NaN when a neighbour
  is NoData and finite otherwise.
\<close>

lemma sample_nearby:
  assumes "elevationData tm = Some d"
  shows "\<exists>b e. hasNearbyNoData tm u v = Inr b \<and> sampleElevation tm u v = Inr e
           \<and> (b \<longrightarrow> e = NaN) \<and> (\<not> b \<longrightarrow> (\<exists>r. e = Fin r))"
proof -
  define w where "w = ofNat (elevationWidth tm)"
  define x where "x = u * (ofNat (elevationWidth tm) - Fin 1)"
  define y where "y = v * (ofNat (elevationHeight tm) - Fin 1)"
  define x0 where "x0 = Math_floor x"
  define y0 where "y0 = Math_floor y"
  define x1 where "x1 = Math_min (x0 + Fin 1) (ofNat (elevationWidth tm) - Fin 1)"
  define y1 where "y1 = Math_min (y0 + Fin 1) (ofNat (elevationHeight tm) - Fin 1)"
  define s00 where "s00 = arrayGet d (y0 * w + x0)"
  define s10 where "s10 = arrayGet d (y0 * w + x1)"
  define s01 where "s01 = arrayGet d (y1 * w + x0)"
  define s11 where "s11 = arrayGet d (y1 * w + x1)"
  define any where "any \<longleftrightarrow> isNoData tm s00 \<or> isNoData tm s10 \<or> isNoData tm s01 \<or> isNoData tm s11"
  note defs = w_def x_def y_def x0_def y0_def x1_def y1_def s00_def s10_def s01_def s11_def
  have h: "hasNearbyNoData tm u v = Inr any"
    using assms by (simp add: hasNearbyNoData_def Let_def defs any_def)
  have s: "sampleElevation tm u v = Inr NaN" if any
    using that assms
    by (auto simp: sampleElevation_def getElevationAt_def Let_def andThen_def defs any_def)
  have t: "\<exists>r. sampleElevation tm u v = Inr (Fin r)" if "\<not> any"
  proof -
    from that obtain a b c e where
      v: "s00 = Num (Fin a)" "s10 = Num (Fin b)" "s01 = Num (Fin c)" "s11 = Num (Fin e)"
      and n: "\<not> isNoData tm s00" "\<not> isNoData tm s10" "\<not> isNoData tm s01" "\<not> isNoData tm s11"
      unfolding any_def using notNoData_Fin by metis
    from v(1) obtain r where "y0 * w + x0 = Fin r"
      unfolding s00_def using arrayGet_defined[of d "y0 * w + x0"] by auto
    then obtain p q where "x0 = Fin p" "y0 = Fin q"
      unfolding w_def using index_Fin by blast
    moreover from this obtain xr yr where "x = Fin xr" "y = Fin yr"
      unfolding x0_def y0_def using Math_floor_Fin by blast
    ultimately obtain z where
      "(Fin a * (Fin 1 - (x - x0)) + Fin b * (x - x0)) * (Fin 1 - (y - y0))
         + (Fin c * (Fin 1 - (x - x0)) + Fin e * (x - x0)) * (y - y0) = Fin z"
      using bilinear_Fin by blast
    moreover have "sampleElevation tm u v =
      Inr ((Fin a * (Fin 1 - (x - x0)) + Fin b * (x - x0)) * (Fin 1 - (y - y0))
         + (Fin c * (Fin 1 - (x - x0)) + Fin e * (x - x0)) * (y - y0))"
      using assms v n unfolding defs
      by (simp add: sampleElevation_def getElevationAt_def Let_def andThen_def)
    ultimately show ?thesis by simp
  qed
  show ?thesis using h s t by (cases any) auto
qed

lemma sampleElevation_result:
  "\<exists>e. sampleElevation tm u v = Inr e \<and> (e = NaN \<or> (\<exists>r. e = Fin r))"
proof (cases "elevationData tm")
  case None
  then show ?thesis by (simp add: sampleElevation_def)
next
  case (Some d)
  then show ?thesis using sample_nearby[OF Some, of u v] by auto
qed

text \<open>
  Claim C9. With the raster set, \<open>_hasNearbyNoData(u, v)\<close> returns true exactly when
  \<open>_sampleElevation(u, v)\<close> returns NaN, and neither throws. This holds for all
  numbers \<open>u\<close> and \<open>v\<close>, those of the unit square among them: both read the same
  four array positions with the same NoData test, and four samples that are not NoData
  are finite and interpolate to a finite value.
\<close>

theorem hasNearbyNoData_iff_sample_NaN:
  assumes "elevationData tm = Some d"
  shows "\<exists>b. hasNearbyNoData tm u v = Inr b \<and> (b \<longleftrightarrow> sampleElevation tm u v = Inr NaN)"
  using sample_nearby[OF assms, of u v] by auto

theorem hasNearbyNoData_iff_sample_NaN_witness:
  "elevationData exampleMesh = Some [Fin 0, Fin 10, Fin 20, Fin 30]
   \<and> hasNearbyNoData exampleMesh (Fin (1 / 2)) (Fin (1 / 2)) = Inr False
   \<and> sampleElevation exampleMesh (Fin (1 / 2)) (Fin (1 / 2)) \<noteq> Inr NaN"
  using hasNearbyNoData_iff_sample_NaN [of exampleMesh "[Fin 0, Fin 10, Fin 20, Fin 30]" "Fin (1 / 2)" "Fin (1 / 2)"]
  by (simp add: exampleMesh_def hasNearbyNoData_def isNoData_def arrayGet_def Let_def
        minus_number_def Math_min_def)


subsection \<open>Height query\<close>






subsection \<open>Vertex colours\<close>

lemma unitChannel_Fin: "unitChannel c \<longleftrightarrow> (\<exists>r. c = Fin r \<and> 0 \<le> r \<and> r \<le> 1)"
  by (cases c) (simp_all add: unitChannel_def)

lemma tableGet_int:
  "0 \<le> k \<Longrightarrow> k < int (length t) \<Longrightarrow> tableGet t (Fin (of_int k)) = Some (t ! nat k)"
  by (simp add: tableGet_def)

lemma convex_unit:
  fixes a b f :: real
  assumes "0 \<le> a" "a \<le> 1" "0 \<le> b" "b \<le> 1" "0 \<le> f" "f \<le> 1"
  shows "0 \<le> a + (b - a) * f" "a + (b - a) * f \<le> 1"
proof -
  have eq: "a + (b - a) * f = (1 - f) * a + f * b" by (simp add: algebra_simps)
  have "0 \<le> (1 - f) * a" "0 \<le> f * b" using assms by simp_all
  then show "0 \<le> a + (b - a) * f" unfolding eq by linarith
  have "(1 - f) * a \<le> (1 - f) * 1" "f * b \<le> f * 1"
    using assms by (intro mult_left_mono; simp)+
  then have "(1 - f) * a + f * b \<le> (1 - f) + f" by simp
  then show "a + (b - a) * f \<le> 1" unfolding eq by simp
qed

lemma mixRgb_unit:
  assumes "unitRgb lo" "unitRgb hi" "0 \<le> f" "f \<le> 1"
  shows "unitRgb (mixRgb lo hi f)"
proof -
  obtain l0 l1 l2 h0 h1 h2 where lo: "lo = (Fin l0, Fin l1, Fin l2)" and hi: "hi = (Fin h0, Fin h1, Fin h2)"
    and b: "0 \<le> l0" "l0 \<le> 1" "0 \<le> l1" "l1 \<le> 1" "0 \<le> l2" "l2 \<le> 1"
           "0 \<le> h0" "h0 \<le> 1" "0 \<le> h1" "h1 \<le> 1" "0 \<le> h2" "h2 \<le> 1"
    using assms(1,2) by (cases lo; cases hi) (auto simp: unitRgb_def unitChannel_Fin)
  show ?thesis
    unfolding lo hi mixRgb_def unitRgb_def unitChannel_def
    using convex_unit[OF b(1,2) b(7,8) assms(3,4)] convex_unit[OF b(3,4) b(9,10) assms(3,4)]
          convex_unit[OF b(5,6) b(11,12) assms(3,4)]
    by (simp add: minus_number_def)
qed

lemma getColorForDepth_Fin:
  fixes dep lo hi :: real
  assumes T: "length T = 256" and lohi: "lo \<noteq> hi"
  defines "idx \<equiv> (1 - max 0 (min 1 ((dep - lo) / (hi - lo)))) * 255"
  shows "getColorForDepth T (Fin dep) (Fin lo) (Fin hi) =
           Inr (mixRgb (T ! nat \<lfloor>idx\<rfloor>) (T ! nat \<lceil>idx\<rceil>) (idx - of_int \<lfloor>idx\<rfloor>))"
    and "0 \<le> idx" and "idx \<le> 255"
proof -
  define c where "c = max 0 (min 1 ((dep - lo) / (hi - lo)))"
  have c: "0 \<le> c" "c \<le> 1" by (simp_all add: c_def)
  have idx: "idx = (1 - c) * 255" by (simp add: idx_def c_def)
  show i0: "0 \<le> idx" and i1: "idx \<le> 255" using c by (simp_all add: idx)
  have fl: "0 \<le> \<lfloor>idx\<rfloor>" "\<lfloor>idx\<rfloor> < 256" using i0 i1 by (simp_all add: floor_less_iff)
  have "\<lceil>idx\<rceil> \<le> 255" using i1 by (simp add: ceiling_le_iff)
  then have ce: "0 \<le> \<lceil>idx\<rceil>" "\<lceil>idx\<rceil> < 256"
    using i0 by simp_all
  have norm: "(Fin dep - Fin lo) / (Fin hi - Fin lo) = Fin ((dep - lo) / (hi - lo))"
    using lohi by (simp add: minus_number_def)
  have clamp: "Math_max (Fin 0) (Math_min (Fin 1) (Fin ((dep - lo) / (hi - lo)))) = Fin c"
    by (auto simp: Math_max_def Math_min_def c_def max_def min_def)
  have index: "(Fin 1 - Fin c) * (ofNat (length T) - Fin 1) = Fin idx"
    by (simp add: minus_number_def T idx)
  have lower: "tableGet T (Math_floor (Fin idx)) = Some (T ! nat \<lfloor>idx\<rfloor>)"
    using tableGet_int[of "\<lfloor>idx\<rfloor>" T] fl T by simp
  have upper: "tableGet T (Math_ceil (Fin idx)) = Some (T ! nat \<lceil>idx\<rceil>)"
    using tableGet_int[of "\<lceil>idx\<rceil>" T] ce T by simp
  have frac: "Fin idx - Math_floor (Fin idx) = Fin (idx - of_int \<lfloor>idx\<rfloor>)"
    by (simp add: minus_number_def)
  show "getColorForDepth T (Fin dep) (Fin lo) (Fin hi) =
           Inr (mixRgb (T ! nat \<lfloor>idx\<rfloor>) (T ! nat \<lceil>idx\<rceil>) (idx - of_int \<lfloor>idx\<rfloor>))"
    unfolding getColorForDepth_def Let_def norm clamp index lower upper frac
    by (simp add: mixRgb_def split: prod.splits)
qed


lemma mixRgb_same:
  assumes "unitRgb c"
  shows "mixRgb c c 0 = c"
proof -
  obtain r g b where "c = (Fin r, Fin g, Fin b)"
    using assms by (cases c) (auto simp: unitRgb_def unitChannel_Fin)
  then show ?thesis by (simp add: mixRgb_def minus_number_def)
qed

lemma mapE_Inr:
  assumes "\<forall>x\<in>set xs. \<exists>y. f x = Inr y \<and> P y"
  shows "\<exists>ys. mapE f xs = Inr ys \<and> length ys = length xs
           \<and> (\<forall>i<length xs. f (xs ! i) = Inr (ys ! i) \<and> P (ys ! i))"
  using assms
proof (induction xs)
  case Nil
  then show ?case by simp
next
  case (Cons x xs)
  then obtain y ys where y: "f x = Inr y" "P y" and ys: "mapE f xs = Inr ys" "length ys = length xs"
      "\<forall>i<length xs. f (xs ! i) = Inr (ys ! i) \<and> P (ys ! i)"
    by auto
  have "\<forall>i<length (x # xs). f ((x # xs) ! i) = Inr ((y # ys) ! i) \<and> P ((y # ys) ! i)"
    using y ys(3) by (auto simp: nth_Cons split: nat.splits)
  then show ?case using y ys by (auto simp: andThen_def)
qed

lemma chunkItems_snoc:
  "chunkItems fn (items @ [i]) s = andThen (chunkItems fn items s) (fn i)"
  by (induction items arbitrary: s) (auto simp: andThen_def split: sum.splits)

text \<open>
  After the callback has run for the vertices below \<open>k\<close>, their channels are in
  place.
\<close>

lemma color_loop:
  assumes "length cs = n" "\<forall>i<n. vertexColor T tm (uvs ! i) = Inr (cs ! i) \<and> P (cs ! i)"
      and "length colors0 = n * 3" "k \<le> n"
  shows "\<exists>colors. chunkItems (colorVertex T tm uvs) [0 ..< k] colors0 = Inr colors
           \<and> length colors = n * 3
           \<and> (\<forall>i<k. (colors ! (i * 3), colors ! (i * 3 + 1), colors ! (i * 3 + 2)) = cs ! i)"
  using assms(4)
proof (induction k)
  case 0
  then show ?case using assms(3) by simp
next
  case (Suc k)
  then obtain colors where c: "chunkItems (colorVertex T tm uvs) [0 ..< k] colors0 = Inr colors"
      "length colors = n * 3" "\<forall>i<k. (colors ! (i * 3), colors ! (i * 3 + 1), colors ! (i * 3 + 2)) = cs ! i"
    by auto
  have v: "vertexColor T tm (uvs ! k) = Inr (cs ! k)" using assms(2) Suc.prems by simp
  define colors' where
    "colors' = colors[k * 3 := fst (cs ! k), k * 3 + 1 := fst (snd (cs ! k)), k * 3 + 2 := snd (snd (cs ! k))]"
  have run: "chunkItems (colorVertex T tm uvs) [0 ..< Suc k] colors0 = Inr colors'"
    by (simp add: chunkItems_snoc c(1) andThen_def colorVertex_def v Let_def colors'_def)
  have len: "length colors' = n * 3" by (simp add: colors'_def c(2))
  have k3: "k * 3 + 2 < length colors" using Suc.prems c(2) by simp
  have new: "(colors' ! (k * 3), colors' ! (k * 3 + 1), colors' ! (k * 3 + 2)) = cs ! k"
    using k3 by (simp add: colors'_def)
  have old: "(colors' ! (i * 3), colors' ! (i * 3 + 1), colors' ! (i * 3 + 2)) = cs ! i" if "i < k" for i
  proof -
    have "i * 3 + 2 < k * 3" using that by simp
    then have "colors' ! (i * 3) = colors ! (i * 3)" "colors' ! (i * 3 + 1) = colors ! (i * 3 + 1)"
        "colors' ! (i * 3 + 2) = colors ! (i * 3 + 2)"
      by (simp_all add: colors'_def)
    then show ?thesis using c(3) that by simp
  qed
  have "\<forall>i<Suc k. (colors' ! (i * 3), colors' ! (i * 3 + 1), colors' ! (i * 3 + 2)) = cs ! i"
    using new old by (auto simp: less_Suc_eq)
  then show ?case using run len by blast
qed

lemma vertexColor_cases:
  assumes T: "length T = 256" "\<forall>c\<in>set T. unitRgb c"
      and dr: "depthRange tm = (Fin lo, Fin hi)" "lo \<noteq> hi"
      and ref: "referenceElevation tm = Fin ref"
  shows "\<exists>e c. sampleElevation tm u (Fin 1 - v) = Inr e \<and> vertexColor T tm (u, v) = Inr c \<and> unitRgb c
     \<and> (e = NaN \<or> Fin ref \<le> e \<longrightarrow> c = gray)
     \<and> (\<forall>el. e = Fin el \<and> el < ref \<longrightarrow>
          (let idx = (1 - max 0 (min 1 ((ref - el - lo) / (hi - lo)))) * 255
           in c = mixRgb (T ! nat \<lfloor>idx\<rfloor>) (T ! nat \<lceil>idx\<rceil>) (idx - of_int \<lfloor>idx\<rfloor>)))"
proof -
  obtain e where e: "sampleElevation tm u (Fin 1 - v) = Inr e" "e = NaN \<or> (\<exists>r. e = Fin r)"
    using sampleElevation_result by blast
  have ug: "unitRgb gray" by (simp add: gray_def unitRgb_def unitChannel_def)
  show ?thesis
  proof (cases "e = NaN \<or> Fin ref \<le> e")
    case True
    then have "vertexColor T tm (u, v) = Inr gray"
      using e ref by (auto simp: vertexColor_def Let_def andThen_def gray_def)
    then show ?thesis using e(1) ug True by auto
  next
    case False
    then obtain el where el: "e = Fin el" "el < ref" using e(2) by auto
    define idx where "idx = (1 - max 0 (min 1 ((ref - el - lo) / (hi - lo)))) * 255"
    define c where "c = mixRgb (T ! nat \<lfloor>idx\<rfloor>) (T ! nat \<lceil>idx\<rceil>) (idx - of_int \<lfloor>idx\<rfloor>)"
    have g: "getColorForDepth T (Fin (ref - el)) (Fin lo) (Fin hi) = Inr c" and i: "0 \<le> idx" "idx \<le> 255"
      using getColorForDepth_Fin[OF T(1) dr(2), of "ref - el"] by (simp_all add: c_def idx_def)
    have "\<lceil>idx\<rceil> \<le> 255" using i(2) by (simp add: ceiling_le_iff)
    moreover have "\<lfloor>idx\<rfloor> < 256" using i(2) by (simp add: floor_less_iff)
    ultimately have "nat \<lfloor>idx\<rfloor> < length T" "nat \<lceil>idx\<rceil> < length T"
      using T(1) by linarith+
    then have "unitRgb (T ! nat \<lfloor>idx\<rfloor>)" "unitRgb (T ! nat \<lceil>idx\<rceil>)"
      using T(2) by simp_all
    moreover have "0 \<le> idx - of_int \<lfloor>idx\<rfloor>" "idx - of_int \<lfloor>idx\<rfloor> \<le> 1"
      by linarith+
    ultimately have uc: "unitRgb c" unfolding c_def by (rule mixRgb_unit)
    have "vertexColor T tm (u, v) = Inr c"
      using e(1) el ref dr(1) g by (simp add: vertexColor_def Let_def andThen_def minus_number_def)
    then show ?thesis
      using e(1) uc el False unfolding Let_def c_def idx_def by auto
  qed
qed

text \<open>
  Claim C6. The colour table has 256 entries with channels between 0 and 1 (it is the
  imported \<open>TURBO_COLORMAP\<close>), the depth range is a pair of different finite numbers
  and the reference elevation is finite. Then every vertex gets a colour with channels
  between 0 and 1: the flat gray \<open>(0.5, 0.5, 0.5)\<close> when its sample is NaN or at or above
  the reference elevation, and otherwise the linear interpolation of the table at the
  fractional index \<open>inverted * 255\<close>, \<open>inverted\<close> being 1 minus the depth
  \<open>referenceElevation - elevation\<close> normalised into the depth range and clamped to
  \<open>[0, 1]\<close>. The depth \<open>minDepth\<close> maps to the table entry 255, the depth
  \<open>maxDepth\<close> to the entry 0. \<open>_computeVertexColorsAsync\<close> sets the colour attribute
  to an array that holds the colour of vertex \<open>i\<close> at the positions \<open>3i\<close>, \<open>3i + 1\<close>
  and \<open>3i + 2\<close>.
\<close>

theorem vertexColor_spec:
  assumes T: "length T = 256" "\<forall>c\<in>set T. unitRgb c"
      and dr: "depthRange tm = (Fin lo, Fin hi)" "lo \<noteq> hi"
      and ref: "referenceElevation tm = Fin ref"
  shows "(\<exists>e c. sampleElevation tm u (Fin 1 - v) = Inr e \<and> vertexColor T tm (u, v) = Inr c \<and> unitRgb c
     \<and> (e = NaN \<or> Fin ref \<le> e \<longrightarrow> c = gray)
     \<and> (\<forall>el. e = Fin el \<and> el < ref \<longrightarrow>
          (let idx = (1 - max 0 (min 1 ((ref - el - lo) / (hi - lo)))) * 255
           in c = mixRgb (T ! nat \<lfloor>idx\<rfloor>) (T ! nat \<lceil>idx\<rceil>) (idx - of_int \<lfloor>idx\<rfloor>))))
   \<and> getColorForDepth T (Fin lo) (Fin lo) (Fin hi) = Inr (T ! 255)
   \<and> getColorForDepth T (Fin hi) (Fin lo) (Fin hi) = Inr (T ! 0)
   \<and> (\<forall>g uvs. geometry tm = Some g \<and> uv g = Some uvs \<and> elevationData tm \<noteq> None \<longrightarrow>
        (\<exists>colors. computeVertexColorsAsync T tm =
                     Inr (tm\<lparr>geometry := Some (g\<lparr>color := Some colors\<rparr>)\<rparr>)
              \<and> length colors = length uvs * 3
              \<and> (\<forall>i<length uvs.
                    vertexColor T tm (uvs ! i) = Inr (colors ! (i * 3), colors ! (i * 3 + 1), colors ! (i * 3 + 2))
                    \<and> unitRgb (colors ! (i * 3), colors ! (i * 3 + 1), colors ! (i * 3 + 2)))))"
proof (intro conjI allI impI)
  show "\<exists>e c. sampleElevation tm u (Fin 1 - v) = Inr e \<and> vertexColor T tm (u, v) = Inr c \<and> unitRgb c
     \<and> (e = NaN \<or> Fin ref \<le> e \<longrightarrow> c = gray)
     \<and> (\<forall>el. e = Fin el \<and> el < ref \<longrightarrow>
          (let idx = (1 - max 0 (min 1 ((ref - el - lo) / (hi - lo)))) * 255
           in c = mixRgb (T ! nat \<lfloor>idx\<rfloor>) (T ! nat \<lceil>idx\<rceil>) (idx - of_int \<lfloor>idx\<rfloor>)))"
    by (rule vertexColor_cases[OF assms])
  have u255: "unitRgb (T ! 255)" and u0: "unitRgb (T ! 0)" using T by simp_all
  show "getColorForDepth T (Fin lo) (Fin lo) (Fin hi) = Inr (T ! 255)"
    using getColorForDepth_Fin(1)[OF T(1) dr(2), of lo] mixRgb_same[OF u255] by simp
  show "getColorForDepth T (Fin hi) (Fin lo) (Fin hi) = Inr (T ! 0)"
    using getColorForDepth_Fin(1)[OF T(1) dr(2), of hi] mixRgb_same[OF u0] dr(2) by simp
next
  fix g uvs
  assume a: "geometry tm = Some g \<and> uv g = Some uvs \<and> elevationData tm \<noteq> None"
  have "\<forall>p\<in>set uvs. \<exists>c. vertexColor T tm p = Inr c \<and> unitRgb c"
  proof
    fix p assume "p \<in> set uvs"
    show "\<exists>c. vertexColor T tm p = Inr c \<and> unitRgb c"
      using vertexColor_cases[OF assms, of "fst p" "snd p"] by auto
  qed
  from mapE_Inr[OF this] obtain cs where cs: "length cs = length uvs"
     "\<forall>i<length uvs. vertexColor T tm (uvs ! i) = Inr (cs ! i) \<and> unitRgb (cs ! i)" by blast
  from color_loop[where cs = cs and n = "length uvs" and T = T and tm = tm and uvs = uvs
      and P = unitRgb and ?colors0.0 = "replicate (length uvs * 3) (Fin 0)" and k = "length uvs"] cs
  obtain colors where colors:
      "chunkItems (colorVertex T tm uvs) [0 ..< length uvs] (replicate (length uvs * 3) (Fin 0)) = Inr colors"
      "length colors = length uvs * 3"
      "\<forall>i<length uvs. (colors ! (i * 3), colors ! (i * 3 + 1), colors ! (i * 3 + 2)) = cs ! i"
    by auto
  have "computeVertexColorsAsync T tm = Inr (tm\<lparr>geometry := Some (g\<lparr>color := Some colors\<rparr>)\<rparr>)"
    using a colors(1) by (auto simp: computeVertexColorsAsync_def processInChunks_def andThen_def Let_def)
  then show "\<exists>colors. computeVertexColorsAsync T tm =
                     Inr (tm\<lparr>geometry := Some (g\<lparr>color := Some colors\<rparr>)\<rparr>)
              \<and> length colors = length uvs * 3
              \<and> (\<forall>i<length uvs.
                    vertexColor T tm (uvs ! i) = Inr (colors ! (i * 3), colors ! (i * 3 + 1), colors ! (i * 3 + 2))
                    \<and> unitRgb (colors ! (i * 3), colors ! (i * 3 + 1), colors ! (i * 3 + 2)))"
    using colors(2,3) cs(2) by auto
qed

lemma rampColormap_wf: "length rampColormap = 256" "\<forall>c\<in>set rampColormap. unitRgb c"
  by (auto simp: rampColormap_def unitRgb_def unitChannel_def)

theorem vertexColor_spec_witness:
  "length rampColormap = 256 \<and> list_all unitRgb rampColormap
   \<and> depthRange exampleMesh = (Fin 0, Fin 31) \<and> (0::real) \<noteq> 31
   \<and> referenceElevation exampleMesh = Fin 157
   \<and> getColorForDepth rampColormap (Fin 0) (Fin 0) (Fin 31) = Inr (Fin 1, Fin 1, Fin 1)
   \<and> getColorForDepth rampColormap (Fin 31) (Fin 0) (Fin 31) = Inr (Fin 0, Fin 0, Fin 0)"
  using vertexColor_spec [of rampColormap exampleMesh 0 31 157 "Fin 0" "Fin 0"] rampColormap_wf
  by (simp add: exampleMesh_def list_all_iff) (simp add: rampColormap_def)


subsection \<open>Triangle filtering\<close>

lemma classifyVertex_eq:
  assumes "elevationData tm = Some d"
  shows "classifyVertex tm p =
           Inr (vertexIsNoData tm p, \<not> vertexIsNoData tm p \<and> vertexBelowReference tm p)"
proof -
  obtain b e where be: "hasNearbyNoData tm (fst p) (Fin 1 - snd p) = Inr b"
      "sampleElevation tm (fst p) (Fin 1 - snd p) = Inr e" "b \<longrightarrow> e = NaN" "\<not> b \<longrightarrow> (\<exists>r. e = Fin r)"
    using sample_nearby[OF assms] by blast
  show ?thesis
    using be by (cases b) (auto simp: classifyVertex_def vertexIsNoData_def vertexBelowReference_def Let_def andThen_def)
qed

lemma mapE_total: "(\<And>x. f x = Inr (h x)) \<Longrightarrow> mapE f xs = Inr (map h xs)"
  by (induction xs) (simp_all add: andThen_def)

lemma filterTriangle_inrange:
  assumes "t * 3 + 2 < length indices" "\<forall>i\<in>set indices. i < length uvs"
  shows "fst (filterTriangle indices (map (vertexIsNoData tm) uvs)
            (map (\<lambda>p. \<not> vertexIsNoData tm p \<and> vertexBelowReference tm p) uvs) (acc, n) t) =
         acc @ (if keptTriangle tm uvs [indices ! (t * 3), indices ! (t * 3 + 1), indices ! (t * 3 + 2)]
                then [Some (indices ! (t * 3)), Some (indices ! (t * 3 + 1)), Some (indices ! (t * 3 + 2))]
                else [])"
proof -
  have r: "indices ! (t * 3) < length uvs" "indices ! (t * 3 + 1) < length uvs" "indices ! (t * 3 + 2) < length uvs"
    using assms by simp_all
  show ?thesis
    using assms(1) r
    by (auto simp: filterTriangle_def Let_def indexAt_def flagAt_def keptTriangle_def)
qed

lemma filter_loop:
  assumes "\<forall>i\<in>set indices. i < length uvs" "k * 3 \<le> length indices"
  shows "fst (foldl (filterTriangle indices (map (vertexIsNoData tm) uvs)
            (map (\<lambda>p. \<not> vertexIsNoData tm p \<and> vertexBelowReference tm p) uvs)) ([], 0) [0 ..< k]) =
         map Some (concat (filter (keptTriangle tm uvs)
           (map (\<lambda>t. [indices ! (t * 3), indices ! (t * 3 + 1), indices ! (t * 3 + 2)]) [0 ..< k])))"
  using assms(2)
proof (induction k)
  case 0
  then show ?case by simp
next
  case (Suc k)
  obtain acc n where st: "foldl (filterTriangle indices (map (vertexIsNoData tm) uvs)
            (map (\<lambda>p. \<not> vertexIsNoData tm p \<and> vertexBelowReference tm p) uvs)) ([], 0) [0 ..< k] = (acc, n)"
    by (cases "foldl (filterTriangle indices (map (vertexIsNoData tm) uvs)
            (map (\<lambda>p. \<not> vertexIsNoData tm p \<and> vertexBelowReference tm p) uvs)) ([], 0) [0 ..< k]") auto
  have acc: "acc = map Some (concat (filter (keptTriangle tm uvs)
           (map (\<lambda>t. [indices ! (t * 3), indices ! (t * 3 + 1), indices ! (t * 3 + 2)]) [0 ..< k])))"
    using Suc st by simp
  have "k * 3 + 2 < length indices" using Suc.prems by simp
  from filterTriangle_inrange[OF this assms(1), of tm acc n]
  show ?case by (simp add: st acc)
qed

lemma ceil_third: "nat \<lceil>real (k * 3) / 3\<rceil> = k"
  by simp

lemma chunkItems_pure: "chunkItems (\<lambda>i s. Inr (f s i)) items s = Inr (foldl f s items)"
  by (induction items arbitrary: s) (simp_all add: andThen_def)

lemma concat_triples_length: "\<forall>t\<in>set ts. length t = 3 \<Longrightarrow> length (concat ts) mod 3 = 0"
  by (induction ts) simp_all

text \<open>
  Claim C2. The geometry has its UV attribute and index buffer, the raster is set, and
  the original index buffer (the stored \<open>originalIndices\<close>, or the geometry's index
  buffer on the first call) is a buffer of triangles over the vertices: its length is a
  multiple of 3 and every index is below the vertex count. Then
  \<open>_filterAboveWaterTrianglesAsync\<close> sets the index buffer to exactly the triangles of the
  original buffer that have no NoData vertex and a vertex strictly below the reference
  elevation, in their original order. The new buffer is therefore the concatenation of a
  subsequence of the original triangles, its length is a multiple of 3 and every index
  in it is below the vertex count.
\<close>

theorem filterAboveWaterTriangles_spec:
  assumes "geometry tm = Some g" "uv g = Some uvs" "index g = Some idx" "elevationData tm = Some d"
      and "indices = (case originalIndices tm of None \<Rightarrow> idx | Some orig \<Rightarrow> orig)"
      and "length indices mod 3 = 0"
      and "\<forall>i\<in>set indices. i < length uvs"
  shows "let kept = filter (keptTriangle tm uvs) (trianglesOf indices); out = concat kept
         in filterAboveWaterTrianglesAsync tm =
              Inr (tm\<lparr>originalIndices := Some indices, geometry := Some (g\<lparr>index := Some out\<rparr>)\<rparr>)
            \<and> subseq kept (trianglesOf indices)
            \<and> length out mod 3 = 0
            \<and> (\<forall>i\<in>set out. i < length uvs)"
proof -
  define kept where "kept = filter (keptTriangle tm uvs) (trianglesOf indices)"
  obtain k where k: "length indices = k * 3" using assms(6) by (auto elim: dvdE simp: mod_eq_0_iff_dvd)
  have tc: "nat \<lceil>real (length indices) / 3\<rceil> = k" unfolding k by (rule ceil_third)
  have dv: "length indices div 3 = k" using k by simp
  have cl: "mapE (classifyVertex tm) uvs =
      Inr (map (\<lambda>p. (vertexIsNoData tm p, \<not> vertexIsNoData tm p \<and> vertexBelowReference tm p)) uvs)"
    by (rule mapE_total) (rule classifyVertex_eq[OF assms(4)])
  have loop: "fst (foldl (filterTriangle indices (map (vertexIsNoData tm) uvs)
            (map (\<lambda>p. \<not> vertexIsNoData tm p \<and> vertexBelowReference tm p) uvs)) ([], 0) [0 ..< k]) =
         map Some (concat kept)"
    using filter_loop[OF assms(7), of k tm] k by (simp add: kept_def trianglesOf_def dv)
  have run: "filterAboveWaterTrianglesAsync tm =
      Inr (tm\<lparr>originalIndices := Some indices, geometry := Some (g\<lparr>index := Some (concat kept)\<rparr>)\<rparr>)"
    using assms(1-4) assms(5)[symmetric] 
    by (simp add: filterAboveWaterTrianglesAsync_def Let_def cl andThen_def processInChunks_def
          chunkItems_pure tc comp_def loop toUint32_def)
  have sub: "subseq kept (trianglesOf indices)" by (simp add: kept_def)
  have tri3: "\<forall>t\<in>set kept. length t = 3" by (auto simp: kept_def trianglesOf_def)
  have rng: "\<forall>t\<in>set (trianglesOf indices). \<forall>i\<in>set t. i < length uvs"
    using assms(7) k by (auto simp: trianglesOf_def dv)
  then have "\<forall>i\<in>set (concat kept). i < length uvs" by (auto simp: kept_def)
  then show ?thesis
    unfolding Let_def kept_def[symmetric]
    using run sub concat_triples_length[OF tri3] by blast
qed

theorem filterAboveWaterTriangles_witness:
  "geometry exampleMesh = Some \<lparr> uv = Some [(Fin 0, Fin 1), (Fin 1, Fin 1), (Fin 0, Fin 0), (Fin 1, Fin 0)],
                          index = Some [0, 2, 1, 2, 3, 1], color = None \<rparr>
   \<and> elevationData exampleMesh = Some [Fin 0, Fin 10, Fin 20, Fin 30]
   \<and> originalIndices exampleMesh = None
   \<and> length [0::nat, 2, 1, 2, 3, 1] mod 3 = 0
   \<and> list_all (\<lambda>i. i < length [(Fin 0, Fin 1), (Fin 1, Fin 1), (Fin 0, Fin 0), (Fin 1, Fin 0)])
         [0::nat, 2, 1, 2, 3, 1]
   \<and> filterAboveWaterTrianglesAsync (exampleMesh\<lparr>referenceElevation := Fin 5\<rparr>) =
       Inr (exampleMesh\<lparr>referenceElevation := Fin 5, originalIndices := Some [0, 2, 1, 2, 3, 1],
            geometry := Some \<lparr> uv = Some [(Fin 0, Fin 1), (Fin 1, Fin 1), (Fin 0, Fin 0), (Fin 1, Fin 0)],
                          index = Some [0, 2, 1], color = None \<rparr>\<rparr>)"
  using filterAboveWaterTriangles_spec [of "exampleMesh\<lparr>referenceElevation := Fin 5\<rparr>"
     "\<lparr> uv = Some [(Fin 0, Fin 1), (Fin 1, Fin 1), (Fin 0, Fin 0), (Fin 1, Fin 0)],
                          index = Some [0, 2, 1, 2, 3, 1], color = None \<rparr>"
     "[(Fin 0, Fin 1), (Fin 1, Fin 1), (Fin 0, Fin 0), (Fin 1, Fin 0)]" "[0, 2, 1, 2, 3, 1]"
     "[Fin 0, Fin 10, Fin 20, Fin 30]" "[0, 2, 1, 2, 3, 1]"]
  by (simp add: exampleMesh_def trianglesOf_def keptTriangle_def vertexIsNoData_def vertexBelowReference_def
      hasNearbyNoData_def sampleElevation_def getElevationAt_def arrayGet_def isNoData_def andThen_def
      minus_number_def Math_min_def Let_def upt_rec)


subsection \<open>The contour computations never throw\<close>

lemma mapE_Cons_Inr:
  "mapE f (x # xs) = Inr ys \<longleftrightarrow> (\<exists>y ys'. f x = Inr y \<and> mapE f xs = Inr ys' \<and> ys = y # ys')"
  by (auto simp: andThen_def split: sum.splits)

lemma mapE_succeeds:
  assumes "\<forall>x\<in>set xs. \<exists>y. f x = Inr y"
  shows "\<exists>ys. mapE f xs = Inr ys"
  using assms by (induction xs) (auto simp: andThen_def)

lemma interpolateEdge_succeeds:
  "e \<le> 3 \<Longrightarrow> \<exists>p. interpolateEdge e threshold tL tR bR bL x0 x1 z0 z1 = Inr p"
  by (simp add: interpolateEdge_def Let_def)

lemma cellEdges_succeeds:
  "\<exists>edges. cellEdges threshold tL tR bR bL = Inr edges \<and> (\<forall>e\<in>set edges. fst e \<le> 3 \<and> snd e \<le> 3)"
proof (cases "tL = NaN \<or> tR = NaN \<or> bR = NaN \<or> bL = NaN")
  case True
  then show ?thesis by (auto simp: cellEdges_def)
next
  case False
  then show ?thesis
    by (cases "threshold \<le> tL"; cases "threshold \<le> tR"; cases "threshold \<le> bR"; cases "threshold \<le> bL")
       (simp_all add: cellEdges_def caseBitsOf_def Let_def MS_EDGE_TABLE_def)
qed

lemma edgeSegment_succeeds:
  assumes "fst e \<le> 3" "snd e \<le> 3"
  shows "\<exists>s. edgeSegment threshold contourY heightOffset tL tR bR bL x0 x1 z0 z1 ntl ntr nbr nbl e = Inr s"
proof -
  obtain p0 where p0: "interpolateEdge (fst e) threshold tL tR bR bL x0 x1 z0 z1 = Inr p0"
    using interpolateEdge_succeeds[OF assms(1)] by blast
  obtain p1 where p1: "interpolateEdge (snd e) threshold tL tR bR bL x0 x1 z0 z1 = Inr p1"
    using interpolateEdge_succeeds[OF assms(2)] by blast
  show ?thesis by (simp add: edgeSegment_def Let_def p0 p1 andThen_def)
qed

lemma cellSegments_succeeds:
  "\<exists>s. cellSegments gw grid modelX modelZ vertexNormals threshold contourY heightOffset gy gx = Inr s"
proof -
  define tL where "tL = grid ! (gy * gw + gx)"
  define tR where "tR = grid ! (gy * gw + gx + 1)"
  define bR where "bR = grid ! ((gy + 1) * gw + gx + 1)"
  define bL where "bL = grid ! ((gy + 1) * gw + gx)"
  obtain edges where e: "cellEdges threshold tL tR bR bL = Inr edges"
      "\<forall>e\<in>set edges. fst e \<le> 3 \<and> snd e \<le> 3"
    using cellEdges_succeeds by blast
  have "\<exists>segs. mapE (edgeSegment threshold contourY heightOffset tL tR bR bL (modelX ! gx) (modelX ! (gx + 1))
           (modelZ ! gy) (modelZ ! (gy + 1)) (vertexNormals ! (gy * gw + gx)) (vertexNormals ! (gy * gw + gx + 1))
           (vertexNormals ! ((gy + 1) * gw + gx + 1)) (vertexNormals ! ((gy + 1) * gw + gx))) edges = Inr segs"
    using e(2) by (intro mapE_succeeds) (auto intro: edgeSegment_succeeds)
  then show ?thesis
    using e(1) by (auto simp: cellSegments_def Let_def andThen_def tL_def tR_def bR_def bL_def)
qed

lemma marchThreshold_succeeds:
  "\<exists>s. marchThreshold gw gh grid modelX modelZ vertexNormals threshold contourY heightOffset = Inr s"
proof -
  have row: "\<exists>r. andThen (mapE (cellSegments gw grid modelX modelZ vertexNormals threshold contourY heightOffset gy)
               [0 ..< gw - 1]) (\<lambda>cells. Inr (concat cells)) = Inr r" for gy
  proof -
    obtain cells where "mapE (cellSegments gw grid modelX modelZ vertexNormals threshold contourY heightOffset gy)
               [0 ..< gw - 1] = Inr cells"
      using mapE_succeeds[of "[0 ..< gw - 1]"
          "cellSegments gw grid modelX modelZ vertexNormals threshold contourY heightOffset gy"]
        cellSegments_succeeds by blast
    then show ?thesis by (simp add: andThen_def)
  qed
  obtain rows where "mapE (\<lambda>gy.
          andThen
            (mapE (cellSegments gw grid modelX modelZ vertexNormals threshold contourY heightOffset gy)
               [0 ..< gw - 1])
            (\<lambda>cells. Inr (concat cells))) [0 ..< gh - 1] = Inr rows"
    using mapE_succeeds[of "[0 ..< gh - 1]" "\<lambda>gy.
          andThen
            (mapE (cellSegments gw grid modelX modelZ vertexNormals threshold contourY heightOffset gy)
               [0 ..< gw - 1])
            (\<lambda>cells. Inr (concat cells))"] row by blast
  then show ?thesis by (simp add: marchThreshold_def andThen_def)
qed

lemma thresholdChunk_succeeds:
  "\<exists>c. thresholdChunk gw gh grid modelX modelZ vertexNormals refElevation heightScale heightOffset
          simplifyTolerance threshold = Inr c"
proof -
  obtain s where "marchThreshold gw gh grid modelX modelZ vertexNormals threshold
      ((threshold - refElevation) * heightScale) heightOffset = Inr s"
    using marchThreshold_succeeds by blast
  then show ?thesis by (simp add: thresholdChunk_def Let_def andThen_def)
qed

lemma contourGrid_succeeds: "\<exists>grid. contourGrid tm = Inr grid"
proof -
  have row: "\<exists>r. (let v = ofNat gy / (ofNat (gridHeight tm) - Fin 1)
              in mapE (\<lambda>gx.
                   let u = ofNat gx / (ofNat (gridWidth tm) - Fin 1)
                   in sampleElevation tm u v) [0 ..< gridWidth tm]) = Inr r" for gy
    unfolding Let_def by (intro mapE_succeeds) (use sampleElevation_result in blast)
  obtain rows where "mapE (\<lambda>gy.
              let v = ofNat gy / (ofNat (gridHeight tm) - Fin 1)
              in mapE (\<lambda>gx.
                   let u = ofNat gx / (ofNat (gridWidth tm) - Fin 1)
                   in sampleElevation tm u v) [0 ..< gridWidth tm]) [0 ..< gridHeight tm] = Inr rows"
    using mapE_succeeds[of "[0 ..< gridHeight tm]" "\<lambda>gy.
              let v = ofNat gy / (ofNat (gridHeight tm) - Fin 1)
              in mapE (\<lambda>gx.
                   let u = ofNat gx / (ofNat (gridWidth tm) - Fin 1)
                   in sampleElevation tm u v) [0 ..< gridWidth tm]"] row by blast
  then show ?thesis by (simp add: contourGrid_def Let_def andThen_def)
qed

lemma mapE_take: "mapE f xs = Inr ys \<Longrightarrow> mapE f (take n xs) = Inr (take n ys)"
proof (induction xs arbitrary: n ys)
  case Nil
  then show ?case by simp
next
  case (Cons x xs)
  then obtain y ys' where y: "f x = Inr y" "mapE f xs = Inr ys'" "ys = y # ys'"
    unfolding mapE_Cons_Inr by blast
  show ?case
  proof (cases n)
    case 0
    then show ?thesis by simp
  next
    case (Suc m)
    then show ?thesis using y Cons.IH[OF y(2), of m] by (simp add: andThen_def)
  qed
qed


lemmas sample_eval = sampleElevation_def getElevationAt_def arrayGet_def isNoData_def andThen_def
  minus_number_def Math_min_def Let_def

lemmas contour_eval = generateContours_def contourThresholds_def thresholdLoop.simps
  contourGrid_def contourModelX_def contourModelZ_def contourNormals_def vertexNormal_def
  getHeightScale_def thresholdChunk_def marchThreshold_def cellSegments_def cellEdges_def
  caseBitsOf_def MS_EDGE_TABLE_def edgeSegment_def interpolateEdge_def edgeNormals_def upt_rec


subsection \<open>Contour thresholds\<close>

text \<open>
  With a positive finite interval the threshold loop ends, unless the rounded depth
  limit is \<open>Infinity\<close>.
\<close>

lemma thresholdLoop_steps:
  fixes i m :: real
  assumes "0 < i"
  shows "m - d < real n * i \<Longrightarrow>
         \<exists>ths. thresholdLoop refElevation minElevation (Fin i) (Fin m) (Fin d) acc = Some ths"
proof (induction n arbitrary: d acc)
  case 0
  then have "\<not> d \<le> m" by simp
  then show ?case by (subst thresholdLoop.simps) simp
next
  case (Suc n)
  show ?case
  proof (cases "d \<le> m")
    case False
    then show ?thesis by (subst thresholdLoop.simps) simp
  next
    case True
    have "m - (d + i) < real n * i" using Suc.prems by (simp add: algebra_simps)
    from Suc.IH[OF this] show ?thesis
      using True by (subst thresholdLoop.simps) simp
  qed
qed

lemma contourThresholds_terminates:
  fixes i :: real
  assumes "0 < i" and "Math_round (refElevation - minElevation) \<noteq> PInf"
  shows "\<exists>ths. contourThresholds refElevation minElevation (Fin i) = Some ths"
proof (cases "Math_round (refElevation - minElevation)")
  case (Fin m)
  obtain n where "m - i < real n * i"
    using assms(1) by (metis ex_less_of_nat_mult mult.commute)
  from thresholdLoop_steps[OF assms(1) this] show ?thesis
    by (simp add: contourThresholds_def Fin)
next
  case PInf
  then show ?thesis using assms(2) by simp
next
  case NInf
  then show ?thesis
    by (simp add: contourThresholds_def) (subst thresholdLoop.simps, simp)
next
  case NaN
  then show ?thesis
    by (simp add: contourThresholds_def) (subst thresholdLoop.simps, simp)
qed

text \<open>
  Claim C4, as amended. For \<open>referenceElevation = 100\<close>, \<open>minElevation = 0\<close> and
  \<open>interval = 10\<close> the threshold derivation of \<open>generateContours\<close> (which does not
  look at the grid) produces exactly 10 thresholds, the elevations 90, 80, ..., 10, 0 in
  this order: the depth 100 is still within \<open>round(100 - 0)\<close>, and its candidate 0 is
  kept because it is \<open>>= minElevation\<close>.
\<close>

theorem contourThresholds_ramp:
  "contourThresholds (Fin 100) (Fin 0) (Fin 10) =
     Some [Fin 90, Fin 80, Fin 70, Fin 60, Fin 50, Fin 40, Fin 30, Fin 20, Fin 10, Fin 0]"
  by (simp add: contourThresholds_def minus_number_def thresholdLoop.simps)

text \<open>The claim as stated has 9 thresholds, 10 to 90: the code derives 10, the last being 0.\<close>

theorem contourThresholds_ramp_counterexample:
  "map_option length (contourThresholds (Fin 100) (Fin 0) (Fin 10)) = Some 10
   \<and> map_option last (contourThresholds (Fin 100) (Fin 0) (Fin 10)) = Some (Fin 0)"
  by (simp add: contourThresholds_def minus_number_def thresholdLoop.simps)


subsection \<open>Marching squares cases\<close>

lemma edgeSegment_length:
  "edgeSegment threshold contourY heightOffset tL tR bR bL x0 x1 z0 z1 ntl ntr nbr nbl e = Inr s
     \<Longrightarrow> length s = 6"
  by (auto simp: edgeSegment_def Let_def andThen_def split: sum.splits)

lemma mapE_results:
  "mapE f xs = Inr ys \<Longrightarrow> length ys = length xs \<and> (\<forall>y\<in>set ys. \<exists>x\<in>set xs. f x = Inr y)"
proof (induction xs arbitrary: ys)
  case Nil
  then show ?case by simp
next
  case (Cons x xs)
  then obtain y ys' where y: "f x = Inr y" "mapE f xs = Inr ys'" "ys = y # ys'"
    unfolding mapE_Cons_Inr by blast
  then show ?case using Cons.IH[OF y(2)] by auto
qed

lemma mapE_andThen:
  "mapE f xs = Inr ys \<Longrightarrow> mapE (\<lambda>x. andThen (f x) (\<lambda>y. Inr (g y))) xs = Inr (map g ys)"
proof (induction xs arbitrary: ys)
  case Nil
  then show ?case by simp
next
  case (Cons x xs)
  then obtain y ys' where y: "f x = Inr y" "mapE f xs = Inr ys'" "ys = y # ys'"
    unfolding mapE_Cons_Inr by blast
  then show ?case using Cons.IH[OF y(2)] by (simp add: andThen_def)
qed

text \<open>The case code and the edge pairs of a cell whose corners are numbers.\<close>

lemma cellEdges_cases:
  assumes "tL \<noteq> NaN" "tR \<noteq> NaN" "bR \<noteq> NaN" "bL \<noteq> NaN"
  shows "let code = caseBitsOf threshold tL tR bR bL;
             center = (tL + tR + bR + bL) * Fin (1 / 4)
         in (bit code 3 \<longleftrightarrow> threshold \<le> tL) \<and> (bit code 2 \<longleftrightarrow> threshold \<le> tR)
          \<and> (bit code 1 \<longleftrightarrow> threshold \<le> bR) \<and> (bit code 0 \<longleftrightarrow> threshold \<le> bL)
          \<and> code < 16
          \<and> (\<exists>edges. cellEdges threshold tL tR bR bL = Inr edges
                \<and> (code = 0 \<or> code = 15 \<longrightarrow> edges = [])
                \<and> (code \<noteq> 5 \<and> code \<noteq> 10 \<longrightarrow> MS_EDGE_TABLE ! code = Some edges)
                \<and> (code = 5 \<longrightarrow>
                      edges = (if threshold \<le> center then [(3, 0), (2, 1)] else [(0, 1), (3, 2)]))
                \<and> (code = 10 \<longrightarrow>
                      edges = (if threshold \<le> center then [(0, 1), (3, 2)] else [(3, 0), (2, 1)])))"
  using assms
  by (cases "threshold \<le> tL"; cases "threshold \<le> tR"; cases "threshold \<le> bR"; cases "threshold \<le> bL")
     (simp_all add: cellEdges_def caseBitsOf_def Let_def MS_EDGE_TABLE_def bit_Suc_0_iff)

text \<open>
  What a cell contributes to \<open>chunkData\<close>: six numbers for each of its edge pairs, in
  the order of the pairs.
\<close>

lemma cellSegments_edges:
  "\<exists>edges segs.
      cellEdges threshold (grid ! (gy * gw + gx)) (grid ! (gy * gw + gx + 1))
        (grid ! ((gy + 1) * gw + gx + 1)) (grid ! ((gy + 1) * gw + gx)) = Inr edges
    \<and> mapE (edgeSegment threshold contourY heightOffset
              (grid ! (gy * gw + gx)) (grid ! (gy * gw + gx + 1))
              (grid ! ((gy + 1) * gw + gx + 1)) (grid ! ((gy + 1) * gw + gx))
              (modelX ! gx) (modelX ! (gx + 1)) (modelZ ! gy) (modelZ ! (gy + 1))
              (vertexNormals ! (gy * gw + gx)) (vertexNormals ! (gy * gw + gx + 1))
              (vertexNormals ! ((gy + 1) * gw + gx + 1)) (vertexNormals ! ((gy + 1) * gw + gx)))
        edges = Inr segs
    \<and> length segs = length edges \<and> (\<forall>s\<in>set segs. length s = 6)
    \<and> cellSegments gw grid modelX modelZ vertexNormals threshold contourY heightOffset gy gx
        = Inr (concat segs)"
proof -
  define tL where "tL = grid ! (gy * gw + gx)"
  define tR where "tR = grid ! (gy * gw + gx + 1)"
  define bR where "bR = grid ! ((gy + 1) * gw + gx + 1)"
  define bL where "bL = grid ! ((gy + 1) * gw + gx)"
  define seg where "seg = edgeSegment threshold contourY heightOffset tL tR bR bL
     (modelX ! gx) (modelX ! (gx + 1)) (modelZ ! gy) (modelZ ! (gy + 1))
     (vertexNormals ! (gy * gw + gx)) (vertexNormals ! (gy * gw + gx + 1))
     (vertexNormals ! ((gy + 1) * gw + gx + 1)) (vertexNormals ! ((gy + 1) * gw + gx))"
  obtain edges where e: "cellEdges threshold tL tR bR bL = Inr edges"
      "\<forall>e\<in>set edges. fst e \<le> 3 \<and> snd e \<le> 3"
    using cellEdges_succeeds by blast
  have "\<forall>e\<in>set edges. \<exists>s. seg e = Inr s"
    using e(2) unfolding seg_def by (auto intro: edgeSegment_succeeds)
  then obtain segs where segs: "mapE seg edges = Inr segs"
    using mapE_succeeds by blast
  have len: "length segs = length edges" and six: "\<forall>s\<in>set segs. length s = 6"
    using mapE_results[OF segs] edgeSegment_length unfolding seg_def by fastforce+
  have "cellSegments gw grid modelX modelZ vertexNormals threshold contourY heightOffset gy gx
          = Inr (concat segs)"
    using e(1) segs
    by (simp add: cellSegments_def Let_def andThen_def tL_def tR_def bR_def bL_def seg_def)
  then show ?thesis
    using e(1) segs len six unfolding tL_def tR_def bR_def bL_def seg_def by blast
qed

text \<open>\<open>chunkData\<close> of a threshold is made of the numbers of the cells, row by row.\<close>

lemma marchThreshold_cells:
  "\<exists>cells.
      mapE (\<lambda>gy. mapE (cellSegments gw grid modelX modelZ vertexNormals threshold contourY heightOffset gy)
                    [0 ..< gw - 1]) [0 ..< gh - 1] = Inr cells
    \<and> marchThreshold gw gh grid modelX modelZ vertexNormals threshold contourY heightOffset
        = Inr (concat (map concat cells))"
proof -
  define row where "row = (\<lambda>gy.
     mapE (cellSegments gw grid modelX modelZ vertexNormals threshold contourY heightOffset gy) [0 ..< gw - 1])"
  have "\<exists>r. row gy = Inr r" for gy
    unfolding row_def by (intro mapE_succeeds) (use cellSegments_succeeds in blast)
  then obtain cells where cells: "mapE row [0 ..< gh - 1] = Inr cells"
    using mapE_succeeds[of "[0 ..< gh - 1]" row] by blast
  have "marchThreshold gw gh grid modelX modelZ vertexNormals threshold contourY heightOffset
          = Inr (concat (map concat cells))"
    using mapE_andThen[OF cells, of concat]
    by (simp add: marchThreshold_def row_def andThen_def)
  then show ?thesis using cells unfolding row_def by blast
qed

text \<open>A run of the threshold loop that does not stop early.\<close>

lemma contourLoop_complete:
  assumes "mapE body thresholds = Inr chunks" "\<not> Fin 0 < maxVertices"
  shows "contourLoop body maxVertices n thresholds ti segmentChunks tot progress =
           Inr (\<lparr>segments = concat segmentChunks @ concat (map (case_option [] id) chunks),
                  vertexCount = foldl addChunk tot chunks, aborted = Some False\<rparr>,
                progress @ map (\<lambda>i. ofNat (i + 1) / ofNat n) [ti ..< ti + length thresholds])"
  using assms(1)
proof (induction thresholds arbitrary: chunks ti segmentChunks tot progress)
  case Nil
  then show ?case by simp
next
  case (Cons threshold rest)
  then obtain c cs where c: "body threshold = Inr c" "mapE body rest = Inr cs" "chunks = c # cs"
    unfolding mapE_Cons_Inr by blast
  define p where "p = (\<lambda>i. ofNat (i + 1) / ofNat n)"
  have upt: "[ti ..< ti + length (threshold # rest)] = ti # [ti + 1 ..< ti + 1 + length rest]"
    using upt_conv_Cons[of ti "ti + Suc (length rest)"] by simp
  have "contourLoop body maxVertices n (threshold # rest) ti segmentChunks tot progress =
          contourLoop body maxVertices n rest (ti + 1)
            (case c of None \<Rightarrow> segmentChunks | Some x \<Rightarrow> segmentChunks @ [x]) (addChunk tot c)
            (progress @ [p ti])"
    using c(1) assms(2) by (simp add: andThen_def Let_def addChunk_def p_def)
  also have "\<dots> = Inr (\<lparr>segments = concat (case c of None \<Rightarrow> segmentChunks | Some x \<Rightarrow> segmentChunks @ [x])
                                  @ concat (map (case_option [] id) cs),
                  vertexCount = foldl addChunk (addChunk tot c) cs, aborted = Some False\<rparr>,
                (progress @ [p ti]) @ map p [ti + 1 ..< ti + 1 + length rest])"
    unfolding p_def by (rule Cons.IH[OF c(2)])
  also have "concat (case c of None \<Rightarrow> segmentChunks | Some x \<Rightarrow> segmentChunks @ [x])
                @ concat (map (case_option [] id) cs)
             = concat segmentChunks @ concat (map (case_option [] id) chunks)"
    by (cases c) (simp_all add: c(3))
  also have "foldl addChunk (addChunk tot c) cs = foldl addChunk tot chunks"
    by (simp add: c(3))
  also have "(progress @ [p ti]) @ map p [ti + 1 ..< ti + 1 + length rest]
             = progress @ map p [ti ..< ti + length (threshold # rest)]"
    unfolding upt by simp
  finally show ?case unfolding p_def .
qed

lemma chunkOfData_numbers: "concat (map (case_option [] id) (map chunkOfData datas)) = concat datas"
  by (induction datas) (simp_all add: chunkOfData_def)

text \<open>
  Claim C5. Let the guard of \<open>generateContours\<close> pass and the threshold derivation end
  with \<open>thresholds\<close>. The grid is sampled without an exception, and for every threshold
  the cell loop yields its \<open>chunkData\<close>, the numbers of the cells \<open>(gx, gy)\<close> row by
  row. The corners of a cell are the grid samples \<open>tl = grid[gy gw + gx]\<close>,
  \<open>tr = grid[gy gw + gx + 1]\<close>, \<open>br = grid[(gy + 1) gw + gx + 1]\<close> and
  \<open>bl = grid[(gy + 1) gw + gx]\<close>. When none of them is NaN, the case code has bit 3
  set iff \<open>tl >= threshold\<close>, bit 2 for \<open>tr\<close>, bit 1 for \<open>br\<close> and bit 0 for
  \<open>bl\<close>; the cell has no edge pair for the codes 0 and 15, the entry of the edge
  table for every code other than 5 and 10, and for the saddle codes the pairing chosen
  by the average of the four corners: with \<open>center >= threshold\<close> the pairs
  \<open>[[3,0],[2,1]]\<close> for code 5 and \<open>[[0,1],[3,2]]\<close> for code 10, and the other
  pairing of the two otherwise. The cell contributes six numbers (a segment) for each of
  its edge pairs, in the order of the pairs, and nothing else. Without simplification
  and without a vertex limit \<open>generateContours\<close> returns the numbers of all thresholds
  in order as \<open>segments\<close>.
\<close>

theorem marchingSquares_cells:
  assumes "elevationData tm \<noteq> None" and "gridWidth tm \<noteq> 0" and "gridHeight tm \<noteq> 0"
      and "contourThresholds refElevation minElevation interval = Some thresholds"
  shows "\<exists>grid datas.
      contourGrid tm = Inr grid
    \<and> (let gw = gridWidth tm; gh = gridHeight tm;
           modelX = contourModelX tm; modelZ = contourModelZ tm;
           heightScale = getHeightScale tm;
           vertexNormals = contourNormals tm grid heightScale
       in mapE (\<lambda>threshold. marchThreshold gw gh grid modelX modelZ vertexNormals threshold
                   ((threshold - refElevation) * heightScale) heightOffset) thresholds = Inr datas
        \<and> (thresholds \<noteq> [] \<and> \<not> Fin 0 < simplifyTolerance \<and> \<not> Fin 0 < maxVertices \<longrightarrow>
             generateContours tm refElevation minElevation interval heightOffset simplifyTolerance
                 maxVertices =
               Some (Inr (Some \<lparr>segments = concat datas,
                                 vertexCount = runningTotal (map chunkOfData datas),
                                 aborted = Some False\<rparr>,
                          map (\<lambda>i. ofNat (i + 1) / ofNat (length thresholds)) [0 ..< length thresholds])))
        \<and> (\<forall>threshold contourY.
             \<exists>cells.
                mapE (\<lambda>gy. mapE (cellSegments gw grid modelX modelZ vertexNormals threshold contourY
                                    heightOffset gy) [0 ..< gw - 1]) [0 ..< gh - 1] = Inr cells
              \<and> marchThreshold gw gh grid modelX modelZ vertexNormals threshold contourY heightOffset
                  = Inr (concat (map concat cells)))
        \<and> (\<forall>threshold contourY gy gx.
             let tL = grid ! (gy * gw + gx); tR = grid ! (gy * gw + gx + 1);
                 bR = grid ! ((gy + 1) * gw + gx + 1); bL = grid ! ((gy + 1) * gw + gx);
                 code = caseBitsOf threshold tL tR bR bL;
                 center = (tL + tR + bR + bL) * Fin (1 / 4)
             in tL \<noteq> NaN \<and> tR \<noteq> NaN \<and> bR \<noteq> NaN \<and> bL \<noteq> NaN \<longrightarrow>
                  (bit code 3 \<longleftrightarrow> threshold \<le> tL) \<and> (bit code 2 \<longleftrightarrow> threshold \<le> tR)
                \<and> (bit code 1 \<longleftrightarrow> threshold \<le> bR) \<and> (bit code 0 \<longleftrightarrow> threshold \<le> bL)
                \<and> code < 16
                \<and> (\<exists>edges segs.
                      cellEdges threshold tL tR bR bL = Inr edges
                    \<and> (code = 0 \<or> code = 15 \<longrightarrow> edges = [])
                    \<and> (code \<noteq> 5 \<and> code \<noteq> 10 \<longrightarrow> MS_EDGE_TABLE ! code = Some edges)
                    \<and> (code = 5 \<longrightarrow>
                          edges = (if threshold \<le> center then [(3, 0), (2, 1)] else [(0, 1), (3, 2)]))
                    \<and> (code = 10 \<longrightarrow>
                          edges = (if threshold \<le> center then [(0, 1), (3, 2)] else [(3, 0), (2, 1)]))
                    \<and> mapE (edgeSegment threshold contourY heightOffset tL tR bR bL
                              (modelX ! gx) (modelX ! (gx + 1)) (modelZ ! gy) (modelZ ! (gy + 1))
                              (vertexNormals ! (gy * gw + gx)) (vertexNormals ! (gy * gw + gx + 1))
                              (vertexNormals ! ((gy + 1) * gw + gx + 1))
                              (vertexNormals ! ((gy + 1) * gw + gx))) edges = Inr segs
                    \<and> length segs = length edges \<and> (\<forall>s\<in>set segs. length s = 6)
                    \<and> cellSegments gw grid modelX modelZ vertexNormals threshold contourY heightOffset
                        gy gx = Inr (concat segs))))"
proof -
  obtain grid where grid: "contourGrid tm = Inr grid"
    using contourGrid_succeeds by blast
  define gw where "gw = gridWidth tm"
  define gh where "gh = gridHeight tm"
  define modelX where "modelX = contourModelX tm"
  define modelZ where "modelZ = contourModelZ tm"
  define heightScale where "heightScale = getHeightScale tm"
  define vertexNormals where "vertexNormals = contourNormals tm grid heightScale"
  define march where "march = (\<lambda>threshold. marchThreshold gw gh grid modelX modelZ vertexNormals threshold
                   ((threshold - refElevation) * heightScale) heightOffset)"
  obtain datas where datas: "mapE march thresholds = Inr datas"
    using mapE_succeeds[of thresholds march] marchThreshold_succeeds unfolding march_def by blast
  have run: "generateContours tm refElevation minElevation interval heightOffset simplifyTolerance
                 maxVertices =
               Some (Inr (Some \<lparr>segments = concat datas,
                                 vertexCount = runningTotal (map chunkOfData datas),
                                 aborted = Some False\<rparr>,
                          map (\<lambda>i. ofNat (i + 1) / ofNat (length thresholds)) [0 ..< length thresholds]))"
    if ne: "thresholds \<noteq> []" and tol: "\<not> Fin 0 < simplifyTolerance" and lim: "\<not> Fin 0 < maxVertices"
  proof -
    define body where "body = thresholdChunk gw gh grid modelX modelZ vertexNormals refElevation
       heightScale heightOffset simplifyTolerance"
    have "body = (\<lambda>threshold. andThen (march threshold) (\<lambda>d. Inr (chunkOfData d)))"
      using tol by (auto simp: body_def thresholdChunk_def march_def chunkOfData_def Let_def fun_eq_iff
          andThen_def split: sum.splits)
    then have chunks: "mapE body thresholds = Inr (map chunkOfData datas)"
      using mapE_andThen[OF datas, of chunkOfData] by simp
    have loop: "contourLoop body maxVertices (length thresholds) thresholds 0 [] (Fin 0) [] =
           Inr (\<lparr>segments = concat [] @ concat (map (case_option [] id) (map chunkOfData datas)),
                  vertexCount = foldl addChunk (Fin 0) (map chunkOfData datas), aborted = Some False\<rparr>,
                [] @ map (\<lambda>i. ofNat (i + 1) / ofNat (length thresholds)) [0 ..< 0 + length thresholds])"
      by (rule contourLoop_complete[OF chunks lim])
    have ne': "length thresholds \<noteq> 0" using ne by simp
    show ?thesis
      using assms grid ne' loop
      unfolding generateContours_def Let_def runningTotal_def body_def gw_def gh_def modelX_def
        modelZ_def heightScale_def vertexNormals_def chunkOfData_numbers
      by (simp add: andThen_def del: upt_Suc)
  qed
  have cells: "\<exists>cells.
                mapE (\<lambda>gy. mapE (cellSegments gw grid modelX modelZ vertexNormals threshold contourY
                                    heightOffset gy) [0 ..< gw - 1]) [0 ..< gh - 1] = Inr cells
              \<and> marchThreshold gw gh grid modelX modelZ vertexNormals threshold contourY heightOffset
                  = Inr (concat (map concat cells))" for threshold contourY
    by (rule marchThreshold_cells)
  have cell: "(bit (caseBitsOf threshold tL tR bR bL) 3 \<longleftrightarrow> threshold \<le> tL)
                \<and> (bit (caseBitsOf threshold tL tR bR bL) 2 \<longleftrightarrow> threshold \<le> tR)
                \<and> (bit (caseBitsOf threshold tL tR bR bL) 1 \<longleftrightarrow> threshold \<le> bR)
                \<and> (bit (caseBitsOf threshold tL tR bR bL) 0 \<longleftrightarrow> threshold \<le> bL)
                \<and> caseBitsOf threshold tL tR bR bL < 16
                \<and> (\<exists>edges segs.
                      cellEdges threshold tL tR bR bL = Inr edges
                    \<and> (caseBitsOf threshold tL tR bR bL = 0 \<or> caseBitsOf threshold tL tR bR bL = 15
                          \<longrightarrow> edges = [])
                    \<and> (caseBitsOf threshold tL tR bR bL \<noteq> 5 \<and> caseBitsOf threshold tL tR bR bL \<noteq> 10
                          \<longrightarrow> MS_EDGE_TABLE ! caseBitsOf threshold tL tR bR bL = Some edges)
                    \<and> (caseBitsOf threshold tL tR bR bL = 5 \<longrightarrow>
                          edges = (if threshold \<le> (tL + tR + bR + bL) * Fin (1 / 4)
                                   then [(3, 0), (2, 1)] else [(0, 1), (3, 2)]))
                    \<and> (caseBitsOf threshold tL tR bR bL = 10 \<longrightarrow>
                          edges = (if threshold \<le> (tL + tR + bR + bL) * Fin (1 / 4)
                                   then [(0, 1), (3, 2)] else [(3, 0), (2, 1)]))
                    \<and> mapE (edgeSegment threshold contourY heightOffset tL tR bR bL
                              (modelX ! gx) (modelX ! (gx + 1)) (modelZ ! gy) (modelZ ! (gy + 1))
                              (vertexNormals ! (gy * gw + gx)) (vertexNormals ! (gy * gw + gx + 1))
                              (vertexNormals ! ((gy + 1) * gw + gx + 1))
                              (vertexNormals ! ((gy + 1) * gw + gx))) edges = Inr segs
                    \<and> length segs = length edges \<and> (\<forall>s\<in>set segs. length s = 6)
                    \<and> cellSegments gw grid modelX modelZ vertexNormals threshold contourY heightOffset
                        gy gx = Inr (concat segs))"
    if tL: "tL = grid ! (gy * gw + gx)" and tR: "tR = grid ! (gy * gw + gx + 1)"
      and bR: "bR = grid ! ((gy + 1) * gw + gx + 1)" and bL: "bL = grid ! ((gy + 1) * gw + gx)"
      and nn: "tL \<noteq> NaN \<and> tR \<noteq> NaN \<and> bR \<noteq> NaN \<and> bL \<noteq> NaN"
    for threshold contourY gy gx tL tR bR bL
  proof -
    from cellSegments_edges[of threshold grid gy gw gx contourY heightOffset modelX modelZ vertexNormals]
    obtain edges segs where es:
      "cellEdges threshold tL tR bR bL = Inr edges"
      "mapE (edgeSegment threshold contourY heightOffset tL tR bR bL
                              (modelX ! gx) (modelX ! (gx + 1)) (modelZ ! gy) (modelZ ! (gy + 1))
                              (vertexNormals ! (gy * gw + gx)) (vertexNormals ! (gy * gw + gx + 1))
                              (vertexNormals ! ((gy + 1) * gw + gx + 1))
                              (vertexNormals ! ((gy + 1) * gw + gx))) edges = Inr segs"
      "length segs = length edges" "\<forall>s\<in>set segs. length s = 6"
      "cellSegments gw grid modelX modelZ vertexNormals threshold contourY heightOffset gy gx
         = Inr (concat segs)"
      unfolding tL tR bR bL by blast
    from nn have n: "tL \<noteq> NaN" "tR \<noteq> NaN" "bR \<noteq> NaN" "bL \<noteq> NaN" by simp_all
    show ?thesis
      using cellEdges_cases[OF n, of threshold] es unfolding Let_def by auto
  qed
  have run': "thresholds \<noteq> [] \<and> \<not> Fin 0 < simplifyTolerance \<and> \<not> Fin 0 < maxVertices \<longrightarrow>
             generateContours tm refElevation minElevation interval heightOffset simplifyTolerance
                 maxVertices =
               Some (Inr (Some \<lparr>segments = concat datas,
                                 vertexCount = runningTotal (map chunkOfData datas),
                                 aborted = Some False\<rparr>,
                          map (\<lambda>i. ofNat (i + 1) / ofNat (length thresholds)) [0 ..< length thresholds]))"
    using run by blast
  have cells': "\<forall>threshold contourY. \<exists>cells.
                mapE (\<lambda>gy. mapE (cellSegments gw grid modelX modelZ vertexNormals threshold contourY
                                    heightOffset gy) [0 ..< gw - 1]) [0 ..< gh - 1] = Inr cells
              \<and> marchThreshold gw gh grid modelX modelZ vertexNormals threshold contourY heightOffset
                  = Inr (concat (map concat cells))"
    using cells by blast
  note cell' = cell[OF refl refl refl refl]
  show ?thesis
    unfolding Let_def
    apply (rule exI[of _ grid])
    apply (rule exI[of _ datas])
    apply (intro conjI)
        apply (rule grid)
       apply (rule datas[unfolded march_def gw_def gh_def modelX_def modelZ_def heightScale_def vertexNormals_def])
      apply (rule run')
     apply (rule cells'[unfolded gw_def gh_def modelX_def modelZ_def heightScale_def vertexNormals_def])
    apply (intro allI impI)
    apply (rule cell'[unfolded gw_def gh_def modelX_def modelZ_def heightScale_def vertexNormals_def])
    apply assumption
    done
qed

text \<open>
  On the example mesh, with the thresholds 15 and 0: the single cell has the corners 0,
  10, 30 and 20, the code 3 for the threshold 15 and one segment, and the code 15 for
  the threshold 0. A cell with the corners 10, 0, 10 and 0 is the saddle case 10 for
  the threshold 5 and yields two segments.
\<close>

theorem marchingSquares_cells_witness:
  "elevationData exampleMesh \<noteq> None \<and> gridWidth exampleMesh \<noteq> 0 \<and> gridHeight exampleMesh \<noteq> 0
   \<and> contourThresholds (Fin 30) (Fin 0) (Fin 15) = Some [Fin 15, Fin 0]
   \<and> contourGrid exampleMesh = Inr [Fin 0, Fin 10, Fin 20, Fin 30]
   \<and> caseBitsOf (Fin 15) (Fin 0) (Fin 10) (Fin 30) (Fin 20) = 3
   \<and> caseBitsOf (Fin 0) (Fin 0) (Fin 10) (Fin 30) (Fin 20) = 15
   \<and> generateContours exampleMesh (Fin 30) (Fin 0) (Fin 15) (Fin 0) (Fin 0) (Fin 0) =
       Some (Inr (Some \<lparr>segments = [Fin (- (1 / 2)), Fin (- 15), Fin (1 / 4),
                                      Fin (1 / 2), Fin (- 15), Fin (- (1 / 4))],
                         vertexCount = Fin 2, aborted = Some False\<rparr>,
                  [Fin (1 / 2), Fin 1]))
   \<and> caseBitsOf (Fin 5) (Fin 10) (Fin 0) (Fin 10) (Fin 0) = 10
   \<and> cellSegments 2 [Fin 10, Fin 0, Fin 0, Fin 10] [Fin 0, Fin 1] [Fin 0, Fin 1]
       [(Fin 0, Fin 1, Fin 0), (Fin 0, Fin 1, Fin 0), (Fin 0, Fin 1, Fin 0), (Fin 0, Fin 1, Fin 0)]
       (Fin 5) (Fin 0) (Fin 0) 0 0 =
       Inr [Fin (1 / 2), Fin 0, Fin 0, Fin 1, Fin 0, Fin (1 / 2),
            Fin 0, Fin 0, Fin (1 / 2), Fin (1 / 2), Fin 0, Fin 1]"
proof -
  have g: "elevationData exampleMesh \<noteq> None" "gridWidth exampleMesh \<noteq> 0" "gridHeight exampleMesh \<noteq> 0"
    by (simp_all add: exampleMesh_def)
  have t: "contourThresholds (Fin 30) (Fin 0) (Fin 15) = Some [Fin 15, Fin 0]"
    by (simp add: contourThresholds_def minus_number_def thresholdLoop.simps)
  from marchingSquares_cells[OF g t, of "Fin 0" "Fin 0" "Fin 0", unfolded Let_def]
  obtain grid datas where
    gr: "contourGrid exampleMesh = Inr grid"
    and ma: "mapE (\<lambda>threshold. marchThreshold (gridWidth exampleMesh) (gridHeight exampleMesh) grid
                     (contourModelX exampleMesh) (contourModelZ exampleMesh)
                     (contourNormals exampleMesh grid (getHeightScale exampleMesh)) threshold
                     ((threshold - Fin 30) * getHeightScale exampleMesh) (Fin 0)) [Fin 15, Fin 0] = Inr datas"
    and run: "[Fin 15, Fin 0] \<noteq> [] \<and> \<not> Fin 0 < Fin 0 \<and> \<not> Fin 0 < Fin 0 \<longrightarrow>
             generateContours exampleMesh (Fin 30) (Fin 0) (Fin 15) (Fin 0) (Fin 0) (Fin 0) =
               Some (Inr (Some \<lparr>segments = concat datas,
                                 vertexCount = runningTotal (map chunkOfData datas),
                                 aborted = Some False\<rparr>,
                          map (\<lambda>i. ofNat (i + 1) / ofNat (length [Fin 15, Fin 0]))
                            [0 ..< length [Fin 15, Fin 0]]))"
    by (elim exE conjE) (rule that)
  have grid: "grid = [Fin 0, Fin 10, Fin 20, Fin 30]"
    using gr by (simp add: exampleMesh_def sample_eval contour_eval)
  have datas: "datas = [[Fin (- (1 / 2)), Fin (- 15), Fin (1 / 4), Fin (1 / 2), Fin (- 15), Fin (- (1 / 4))], []]"
    using ma unfolding grid by (simp add: exampleMesh_def sample_eval contour_eval)
  have r: "generateContours exampleMesh (Fin 30) (Fin 0) (Fin 15) (Fin 0) (Fin 0) (Fin 0) =
       Some (Inr (Some \<lparr>segments = [Fin (- (1 / 2)), Fin (- 15), Fin (1 / 4),
                                      Fin (1 / 2), Fin (- 15), Fin (- (1 / 4))],
                         vertexCount = Fin 2, aborted = Some False\<rparr>,
                  [Fin (1 / 2), Fin 1]))"
    using run by (simp add: datas runningTotal_def addChunk_def chunkOfData_def)
  have c: "caseBitsOf (Fin 15) (Fin 0) (Fin 10) (Fin 30) (Fin 20) = 3"
      "caseBitsOf (Fin 0) (Fin 0) (Fin 10) (Fin 30) (Fin 20) = 15"
      "caseBitsOf (Fin 5) (Fin 10) (Fin 0) (Fin 10) (Fin 0) = 10"
    by (simp_all add: caseBitsOf_def)
  have s: "cellSegments 2 [Fin 10, Fin 0, Fin 0, Fin 10] [Fin 0, Fin 1] [Fin 0, Fin 1]
       [(Fin 0, Fin 1, Fin 0), (Fin 0, Fin 1, Fin 0), (Fin 0, Fin 1, Fin 0), (Fin 0, Fin 1, Fin 0)]
       (Fin 5) (Fin 0) (Fin 0) 0 0 =
       Inr [Fin (1 / 2), Fin 0, Fin 0, Fin 1, Fin 0, Fin (1 / 2),
            Fin 0, Fin 0, Fin (1 / 2), Fin (1 / 2), Fin 0, Fin 1]"
    by (simp add: sample_eval contour_eval)
  show ?thesis
    using g t gr[unfolded grid] r c s by simp
qed

subsection \<open>Calls before the raster is set\<close>

text \<open>
  Claim C8, as amended. While \<open>elevationData\<close> is \<open>null\<close>, \<open>_sampleElevation\<close>
  returns 0 for every \<open>(u, v)\<close> and \<open>generateContours\<close> returns \<open>null\<close> without
  calling \<open>onProgress\<close>; neither throws.
\<close>

theorem unset_grid_returns_quietly:
  assumes "elevationData tm = None"
  shows "sampleElevation tm u v = Inr (Fin 0)
       \<and> generateContours tm refElevation minElevation interval heightOffset simplifyTolerance maxVertices
           = Some (Inr (None, []))"
  using assms by (simp add: sampleElevation_def generateContours_def)

theorem unset_grid_returns_quietly_witness:
  "elevationData freshMesh = None
   \<and> sampleElevation freshMesh (Fin 0) (Fin 0) = Inr (Fin 0)
   \<and> generateContours freshMesh (Fin 157) (Fin 126) (Fin 1) (Fin (8 / 10000)) (Fin (1 / 10000)) (Fin 2000000)
       = Some (Inr (None, []))"
  using unset_grid_returns_quietly [of freshMesh "Fin 0" "Fin 0" "Fin 157" "Fin 126" "Fin 1"
     "Fin (8 / 10000)" "Fin (1 / 10000)" "Fin 2000000"]
  by (simp add: freshMesh_def)

text \<open>
  The claim as stated has these calls fail: on the example mesh without its raster the
  sampler returns the number 0 and the contour generator returns \<open>null\<close>.
\<close>

theorem unset_grid_counterexample:
  "sampleElevation (exampleMesh\<lparr>elevationData := None\<rparr>) (Fin (1 / 2)) (Fin (1 / 2)) = Inr (Fin 0)
   \<and> generateContours (exampleMesh\<lparr>elevationData := None\<rparr>) (Fin 100) (Fin 0) (Fin 10) (Fin 0) (Fin 0) (Fin 0)
       = Some (Inr (None, []))"
  by (simp add: sampleElevation_def generateContours_def exampleMesh_def)


subsection \<open>Simplification with tolerance 0\<close>












subsection \<open>The vertex budget of the contour generator\<close>

lemma contourLoop_abort:
  assumes "k < length thresholds"
      and "mapE body (take (Suc k) thresholds) = Inr chunks"
      and "Fin 0 < maxVertices"
      and "\<forall>j\<le>k. \<not> maxVertices < foldl addChunk tot (take j chunks)"
      and "maxVertices < foldl addChunk tot chunks"
  shows "contourLoop body maxVertices n thresholds ti segmentChunks tot progress =
           Inr (\<lparr>segments = [], vertexCount = foldl addChunk tot chunks, aborted = Some True\<rparr>,
                progress @ map (\<lambda>i. ofNat (i + 1) / ofNat n) [ti ..< ti + Suc k])"
  using assms
proof (induction thresholds arbitrary: k chunks ti segmentChunks tot progress)
  case Nil
  then show ?case by simp
next
  case (Cons threshold rest)
  have "mapE body (threshold # take k rest) = Inr chunks"
    using Cons.prems(2) by (simp only: take_Suc_Cons)
  then obtain c cs where c: "body threshold = Inr c" "mapE body (take k rest) = Inr cs"
      "chunks = c # cs"
    unfolding mapE_Cons_Inr by blast
  define tot' where "tot' = addChunk tot c"
  have tot: "(case c of None \<Rightarrow> tot | Some x \<Rightarrow> tot + ofNat (length x) / Fin 3) = tot'"
    by (simp add: tot'_def addChunk_def)
  show ?case
  proof (cases k)
    case 0
    then have "cs = []" using c(2) by simp
    then have "maxVertices < tot'" using Cons.prems(5) c(3) by (simp add: tot'_def)
    then show ?thesis
      using c(1) Cons.prems(3) 0 \<open>cs = []\<close> c(3)
      by (simp add: andThen_def Let_def tot tot'_def)
  next
    case (Suc k')
    have "\<not> maxVertices < foldl addChunk tot (take 1 chunks)"
      using Cons.prems(4) Suc by (metis One_nat_def Suc_leI zero_less_Suc)
    then have notyet: "\<not> maxVertices < tot'" by (simp add: c(3) tot'_def)
    have k': "k' < length rest" using Cons.prems(1) Suc by simp
    have m: "mapE body (take (Suc k') rest) = Inr cs" using c(2) Suc by simp
    have first: "\<forall>j\<le>k'. \<not> maxVertices < foldl addChunk tot' (take j cs)"
    proof (intro allI impI)
      fix j assume "j \<le> k'"
      then have "Suc j \<le> k" using Suc by simp
      then have "\<not> maxVertices < foldl addChunk tot (take (Suc j) chunks)"
        using Cons.prems(4) by blast
      then show "\<not> maxVertices < foldl addChunk tot' (take j cs)"
        by (simp add: c(3) tot'_def)
    qed
    have ex: "maxVertices < foldl addChunk tot' cs"
      using Cons.prems(5) by (simp add: c(3) tot'_def)
    define p where "p = (\<lambda>i. ofNat (i + 1) / ofNat n)"
    have upt: "[ti ..< ti + Suc k] = ti # [ti + 1 ..< ti + 1 + Suc k']"
      using Suc by (simp add: upt_conv_Cons)
    have prog: "(progress @ [p ti]) @ map p [ti + 1 ..< ti + 1 + Suc k'] = progress @ map p [ti ..< ti + Suc k]"
      unfolding upt by simp
    have vc: "foldl addChunk tot' cs = foldl addChunk tot chunks"
      by (simp add: c(3) tot'_def)
    have "contourLoop body maxVertices n (threshold # rest) ti segmentChunks tot progress =
          contourLoop body maxVertices n rest (ti + 1)
            (case c of None \<Rightarrow> segmentChunks | Some x \<Rightarrow> segmentChunks @ [x]) tot'
            (progress @ [p ti])"
      using c(1) notyet by (simp add: andThen_def Let_def tot p_def)
    also have "\<dots> = Inr (\<lparr>segments = [], vertexCount = foldl addChunk tot' cs, aborted = Some True\<rparr>,
                (progress @ [p ti]) @ map p [ti + 1 ..< ti + 1 + Suc k'])"
      unfolding p_def by (rule Cons.IH[OF k' m Cons.prems(3) first ex])
    finally show ?thesis
      unfolding prog vc unfolding p_def .
  qed
qed

text \<open>
  Claim C3, as amended. Let the guard of \<open>generateContours\<close> pass and the threshold
  derivation end with \<open>thresholds\<close>. Sampling the grid and computing the chunk of a
  threshold never throw; let \<open>chunks\<close> be the chunks of the thresholds in order. If
  \<open>maxVertices > 0\<close> and the running vertex total exceeds \<open>maxVertices\<close> for the first
  time once threshold \<open>k\<close> is complete, the function returns \<open>aborted = true\<close> with
  \<open>vertexCount\<close> the running total after threshold \<open>k\<close> and with an empty
  \<open>segments\<close> array, and it has reported progress for the thresholds \<open>0 .. k\<close> only:
  the abort happens between thresholds, and no later threshold is processed.
\<close>

theorem generateContours_abort:
  assumes "elevationData tm \<noteq> None" and "gridWidth tm \<noteq> 0" and "gridHeight tm \<noteq> 0"
      and "contourThresholds refElevation minElevation interval = Some thresholds"
  shows "\<exists>grid chunks.
           contourGrid tm = Inr grid
         \<and> mapE (thresholdChunk (gridWidth tm) (gridHeight tm) grid (contourModelX tm) (contourModelZ tm)
                   (contourNormals tm grid (getHeightScale tm)) refElevation (getHeightScale tm)
                   heightOffset simplifyTolerance) thresholds = Inr chunks
         \<and> (\<forall>k<length thresholds.
                Fin 0 < maxVertices
                \<and> (\<forall>j\<le>k. \<not> maxVertices < runningTotal (take j chunks))
                \<and> maxVertices < runningTotal (take (Suc k) chunks)
              \<longrightarrow> generateContours tm refElevation minElevation interval heightOffset
                     simplifyTolerance maxVertices =
                   Some (Inr (Some \<lparr>segments = [],
                                     vertexCount = runningTotal (take (Suc k) chunks),
                                     aborted = Some True\<rparr>,
                              map (\<lambda>i. ofNat (i + 1) / ofNat (length thresholds)) [0 ..< Suc k])))"
proof -
  obtain grid where grid: "contourGrid tm = Inr grid"
    using contourGrid_succeeds by blast
  define body where "body = thresholdChunk (gridWidth tm) (gridHeight tm) grid (contourModelX tm)
     (contourModelZ tm) (contourNormals tm grid (getHeightScale tm)) refElevation (getHeightScale tm)
     heightOffset simplifyTolerance"
  obtain chunks where chunks: "mapE body thresholds = Inr chunks"
    using mapE_succeeds[of thresholds body] thresholdChunk_succeeds unfolding body_def by blast
  have "generateContours tm refElevation minElevation interval heightOffset simplifyTolerance maxVertices =
          Some (Inr (Some \<lparr>segments = [], vertexCount = runningTotal (take (Suc k) chunks),
                            aborted = Some True\<rparr>,
                     map (\<lambda>i. ofNat (i + 1) / ofNat (length thresholds)) [0 ..< Suc k]))"
    if k: "k < length thresholds" and pos: "Fin 0 < maxVertices"
      and first: "\<forall>j\<le>k. \<not> maxVertices < runningTotal (take j chunks)"
      and ex: "maxVertices < runningTotal (take (Suc k) chunks)" for k
  proof -
    have ne: "length thresholds \<noteq> 0" using k by auto
    have m: "mapE body (take (Suc k) thresholds) = Inr (take (Suc k) chunks)"
      using chunks by (rule mapE_take)
    have first': "\<forall>j\<le>k. \<not> maxVertices < foldl addChunk (Fin 0) (take j (take (Suc k) chunks))"
      using first by (simp add: runningTotal_def min_def)
    have loop: "contourLoop body maxVertices (length thresholds) thresholds 0 [] (Fin 0) [] =
           Inr (\<lparr>segments = [], vertexCount = foldl addChunk (Fin 0) (take (Suc k) chunks),
                   aborted = Some True\<rparr>,
                [] @ map (\<lambda>i. ofNat (i + 1) / ofNat (length thresholds)) [0 ..< 0 + Suc k])"
      by (rule contourLoop_abort[OF k m pos first' ex[unfolded runningTotal_def]])
    show ?thesis
      using assms grid ne loop
      unfolding generateContours_def Let_def runningTotal_def body_def
      by (simp add: andThen_def del: upt_Suc)
  qed
  then show ?thesis using grid chunks unfolding body_def by blast
qed

theorem generateContours_abort_witness:
  "elevationData exampleMesh \<noteq> None \<and> gridWidth exampleMesh \<noteq> 0 \<and> gridHeight exampleMesh \<noteq> 0
   \<and> contourThresholds (Fin 30) (Fin 0) (Fin 15) = Some [Fin 15, Fin 0]
   \<and> generateContours exampleMesh (Fin 30) (Fin 0) (Fin 15) (Fin 0) (Fin 0) (Fin 1) =
       Some (Inr (Some \<lparr>segments = [], vertexCount = Fin 2, aborted = Some True\<rparr>, [Fin (1 / 2)]))"
proof -
  have g: "elevationData exampleMesh \<noteq> None" "gridWidth exampleMesh \<noteq> 0" "gridHeight exampleMesh \<noteq> 0"
    by (simp_all add: exampleMesh_def)
  have t: "contourThresholds (Fin 30) (Fin 0) (Fin 15) = Some [Fin 15, Fin 0]"
    by (simp add: contourThresholds_def minus_number_def thresholdLoop.simps)
  from generateContours_abort[OF g t, of "Fin 0" "Fin 0" "Fin 1"]
  obtain grid chunks where
    gr: "contourGrid exampleMesh = Inr grid"
    and ch: "mapE (thresholdChunk (gridWidth exampleMesh) (gridHeight exampleMesh) grid
                     (contourModelX exampleMesh) (contourModelZ exampleMesh)
                     (contourNormals exampleMesh grid (getHeightScale exampleMesh)) (Fin 30)
                     (getHeightScale exampleMesh) (Fin 0) (Fin 0)) [Fin 15, Fin 0] = Inr chunks"
    and ab: "\<And>k. k < length [Fin 15, Fin 0] \<Longrightarrow> Fin 0 < Fin 1
                \<and> (\<forall>j\<le>k. \<not> Fin 1 < runningTotal (take j chunks))
                \<and> Fin 1 < runningTotal (take (Suc k) chunks)
              \<Longrightarrow> generateContours exampleMesh (Fin 30) (Fin 0) (Fin 15) (Fin 0) (Fin 0) (Fin 1) =
                   Some (Inr (Some \<lparr>segments = [],
                                     vertexCount = runningTotal (take (Suc k) chunks),
                                     aborted = Some True\<rparr>,
                              map (\<lambda>i. ofNat (i + 1) / ofNat (length [Fin 15, Fin 0])) [0 ..< Suc k]))"
    by blast
  have grid: "grid = [Fin 0, Fin 10, Fin 20, Fin 30]"
    using gr by (simp add: exampleMesh_def sample_eval contour_eval)
  have chunks: "chunks = [Some [Fin (- (1 / 2)), Fin (- 15), Fin (1 / 4), Fin (1 / 2), Fin (- 15), Fin (- (1 / 4))], None]"
    using ch unfolding grid by (simp add: exampleMesh_def sample_eval contour_eval)
  have "generateContours exampleMesh (Fin 30) (Fin 0) (Fin 15) (Fin 0) (Fin 0) (Fin 1) =
                   Some (Inr (Some \<lparr>segments = [],
                                     vertexCount = runningTotal (take (Suc 0) chunks),
                                     aborted = Some True\<rparr>,
                              map (\<lambda>i. ofNat (i + 1) / ofNat (length [Fin 15, Fin 0])) [0 ..< Suc 0]))"
    by (rule ab) (simp_all add: chunks runningTotal_def addChunk_def)
  then show ?thesis
    using g t by (simp add: chunks runningTotal_def addChunk_def)
qed

text \<open>
  The claim as stated has the returned \<open>segments\<close> reflect the work done up to the
  abort. On the example mesh with the thresholds 15 and 0 and \<open>maxVertices = 1\<close> the
  first threshold yields one segment (two vertices, six numbers, as the run without a
  limit returns them); the aborted run returns \<open>vertexCount = 2\<close> and no segments.
\<close>

theorem generateContours_abort_counterexample:
  "generateContours exampleMesh (Fin 30) (Fin 0) (Fin 15) (Fin 0) (Fin 0) (Fin 1) =
     Some (Inr (Some \<lparr>segments = [], vertexCount = Fin 2, aborted = Some True\<rparr>, [Fin (1 / 2)]))
   \<and> generateContours exampleMesh (Fin 30) (Fin 0) (Fin 15) (Fin 0) (Fin 0) (Fin 0) =
     Some (Inr (Some \<lparr>segments = [Fin (- (1 / 2)), Fin (- 15), Fin (1 / 4),
                                     Fin (1 / 2), Fin (- 15), Fin (- (1 / 4))],
                       vertexCount = Fin 2, aborted = Some False\<rparr>,
                [Fin (1 / 2), Fin 1]))"
  by (simp add: exampleMesh_def sample_eval contour_eval)


end
